theory Spec2Isabelle
  imports Complex_Main
begin

section \<open>Python values, exceptions and strings\<close>

text \<open>
  The module \<open>underworld/mesh/_mesh.py\<close> checks the dynamic type of nearly every argument
  it receives, so arguments are values of a datatype of Python values. A \<open>PFloat\<close> carries
  the value of a finite float (the module only compares floats); \<open>PRef r\<close> is a reference
  to the object stored at position \<open>r\<close> of the heap.
\<close>

datatype pyval =
    PNone
  | PBool bool
  | PInt int
  | PFloat real
  | PStr string
  | PList "pyval list"
  | PTuple "pyval list"
  | PRef nat

text \<open>
  An exception is a value: its class and the text of its message. Where the source formats
  numbers into the message the template is kept as it is written.
\<close>

datatype exn =
    TypeError string
  | ValueError string
  | IndexError string
  | KeyError string
  | AttributeError string

text \<open>\<open>isinstance(v, (list, tuple))\<close> and the items of such a sequence.\<close>

fun is_list_or_tuple :: "pyval \<Rightarrow> bool" where
  "is_list_or_tuple (PList xs) = True"
| "is_list_or_tuple (PTuple xs) = True"
| "is_list_or_tuple v = False"

fun seq_items :: "pyval \<Rightarrow> pyval list" where
  "seq_items (PList xs) = xs"
| "seq_items (PTuple xs) = xs"
| "seq_items v = []"

text \<open>
  \<open>isinstance(v, int)\<close>, \<open>isinstance(v, (int, float))\<close> and \<open>isinstance(v, bool)\<close>. In Python
  \<open>bool\<close> is a subclass of \<open>int\<close>: \<open>True\<close> is an \<open>int\<close> of value 1.
\<close>

fun isinstance_int :: "pyval \<Rightarrow> bool" where
  "isinstance_int (PInt i) = True"
| "isinstance_int (PBool b) = True"
| "isinstance_int v = False"

fun isinstance_int_float :: "pyval \<Rightarrow> bool" where
  "isinstance_int_float (PInt i) = True"
| "isinstance_int_float (PBool b) = True"
| "isinstance_int_float (PFloat x) = True"
| "isinstance_int_float v = False"

fun isinstance_bool :: "pyval \<Rightarrow> bool" where
  "isinstance_bool (PBool b) = True"
| "isinstance_bool v = False"

fun isinstance_str :: "pyval \<Rightarrow> bool" where
  "isinstance_str (PStr s) = True"
| "isinstance_str v = False"

text \<open>The number a numeric value stands for in a comparison or in arithmetic.\<close>

fun py_num :: "pyval \<Rightarrow> real" where
  "py_num (PInt i) = of_int i"
| "py_num (PBool b) = (if b then 1 else 0)"
| "py_num (PFloat x) = x"
| "py_num v = 0"

subsection \<open>\<open>str.upper\<close>, \<open>in\<close> on strings and \<open>str.replace(old, '')\<close>\<close>

definition upper_char :: "char \<Rightarrow> char" where
  "upper_char c =
     (case map_of (zip ''abcdefghijklmnopqrstuvwxyz'' ''ABCDEFGHIJKLMNOPQRSTUVWXYZ'') c of
        Some u \<Rightarrow> u
      | None \<Rightarrow> c)"

definition upper :: "string \<Rightarrow> string" where
  "upper s = map upper_char s"

fun startswith :: "string \<Rightarrow> string \<Rightarrow> bool" where
  "startswith [] s = True"
| "startswith (p # ps) [] = False"
| "startswith (p # ps) (c # cs) = (p = c \<and> startswith ps cs)"

text \<open>\<open>contains pat s\<close> is Python's \<open>pat in s\<close>.\<close>

fun contains :: "string \<Rightarrow> string \<Rightarrow> bool" where
  "contains pat [] = (pat = [])"
| "contains pat (c # cs) = (startswith pat (c # cs) \<or> contains pat cs)"

text \<open>
  \<open>remove_all old s\<close> is \<open>s.replace(old, '')\<close>: every occurrence of \<open>old\<close>, found from the
  left and without overlap, is deleted. The source only calls it with a non-empty \<open>old\<close>;
  for the empty one Python returns \<open>s\<close>.
\<close>

function remove_all :: "string \<Rightarrow> string \<Rightarrow> string" where
  "remove_all old [] = []"
| "remove_all old (c # cs) =
     (if old \<noteq> [] \<and> startswith old (c # cs)
      then remove_all old (drop (length old) (c # cs))
      else c # remove_all old cs)"
  by pat_completeness auto
termination
  by (relation "measure (\<lambda>(old, s). length s)") (auto simp: neq_Nil_conv)

section \<open>The heap of objects\<close>

text \<open>
  The classes of the module. \<open>OtherClass\<close> stands for any class defined elsewhere that
  derives from none of them.
\<close>

datatype cls =
    FeMesh
  | MeshGenerator
  | CartesianMeshGenerator
  | QuadraticCartesianGenerator
  | LinearCartesianGenerator
  | TemplatedMeshGenerator
  | LinearInnerGenerator
  | dQ1Generator
  | ConstantGenerator
  | FeMesh_Cartesian
  | FeMesh_IndexSet
  | OtherClass

text \<open>The classes of this module each class derives from, itself included.\<close>

fun superclasses :: "cls \<Rightarrow> cls list" where
  "superclasses FeMesh = [FeMesh]"
| "superclasses MeshGenerator = [MeshGenerator]"
| "superclasses CartesianMeshGenerator = [CartesianMeshGenerator, MeshGenerator]"
| "superclasses QuadraticCartesianGenerator =
     [QuadraticCartesianGenerator, CartesianMeshGenerator, MeshGenerator]"
| "superclasses LinearCartesianGenerator =
     [LinearCartesianGenerator, CartesianMeshGenerator, MeshGenerator]"
| "superclasses TemplatedMeshGenerator = [TemplatedMeshGenerator, MeshGenerator]"
| "superclasses LinearInnerGenerator =
     [LinearInnerGenerator, TemplatedMeshGenerator, MeshGenerator]"
| "superclasses dQ1Generator = [dQ1Generator, TemplatedMeshGenerator, MeshGenerator]"
| "superclasses ConstantGenerator = [ConstantGenerator, TemplatedMeshGenerator, MeshGenerator]"
| "superclasses FeMesh_Cartesian =
     [FeMesh_Cartesian, FeMesh, CartesianMeshGenerator, MeshGenerator]"
| "superclasses FeMesh_IndexSet = [FeMesh_IndexSet]"
| "superclasses OtherClass = [OtherClass]"

definition issubclass :: "cls \<Rightarrow> cls \<Rightarrow> bool" where
  "issubclass c d = (d \<in> set (superclasses c))"

text \<open>
  The value of the attribute \<open>_generator\<close>: a \<open>weakref.ref\<close> to an object, or the value
  that was assigned.
\<close>

datatype slot = Weakref nat | Direct pyval

text \<open>
  An object: its class and the attributes the module assigns (\<open>None\<close> while an attribute
  has not been assigned). \<open>native_generator\<close> is what
  \<open>libUnderworld.StgDomain.Mesh_SetGenerator(self._cself, generator._gen)\<close> leaves in the
  native mesh: the generator whose native part was installed.
\<close>

record pyobj =
  klass :: cls
  a_elementType :: "string option"
  a_generator :: "slot option"
  native_generator :: "nat option"
  a_elementRes :: "pyval option"
  a_minCoord :: "pyval option"
  a_maxCoord :: "pyval option"
  a_dim :: "nat option"
  a_periodic :: "pyval option"
  a_geometryMeshWeakref :: "nat option"
  a_secondaryMesh :: "pyval option"

text \<open>
  The heap is the list of the objects allocated so far; a reference is a position in it.
  No object is reclaimed by the operations of the module, so an object is alive exactly when
  its reference is a position of the heap.
\<close>

type_synonym heap = "pyobj list"

definition blank :: "cls \<Rightarrow> pyobj" where
  "blank c = \<lparr> klass = c, a_elementType = None, a_generator = None, native_generator = None,
      a_elementRes = None, a_minCoord = None, a_maxCoord = None, a_dim = None,
      a_periodic = None, a_geometryMeshWeakref = None, a_secondaryMesh = None \<rparr>"

text \<open>\<open>cls.__new__\<close>: a new object of class \<open>c\<close>, with no attribute yet.\<close>

definition alloc :: "heap \<Rightarrow> cls \<Rightarrow> nat \<times> heap" where
  "alloc h c = (length h, h @ [blank c])"

text \<open>\<open>isinstance(v, c)\<close> for a class \<open>c\<close> of the module.\<close>

fun isinstance :: "heap \<Rightarrow> pyval \<Rightarrow> cls \<Rightarrow> bool" where
  "isinstance h (PRef r) c = (r < length h \<and> issubclass (klass (h ! r)) c)"
| "isinstance h v c = False"

text \<open>Calling a \<open>weakref.ref\<close>: the object while it is alive, \<open>None\<close> afterwards.\<close>

definition deref :: "heap \<Rightarrow> nat \<Rightarrow> pyval" where
  "deref h r = (if r < length h then PRef r else PNone)"

section \<open>\<open>CartesianMeshGenerator.__init__\<close>\<close>

text \<open>
  The checks follow the source line by line, the test on \<open>periodic\<close> (line 297) included:
  it compares \<open>len(periodic)\<close> with \<open>len(periodic)\<close>. The attributes are assigned between
  the checks; an exception leaves the initialiser with no object for the caller, so the
  result is either the exception or the heap with all five attributes assigned. The closing
  \<open>super().__init__(**kwargs)\<close> reaches \<open>StgCompoundComponent\<close>, which is outside the module
  and is taken to succeed.
\<close>

definition CartesianMeshGenerator_init ::
  "heap \<Rightarrow> nat \<Rightarrow> pyval \<Rightarrow> pyval \<Rightarrow> pyval \<Rightarrow> pyval \<Rightarrow> exn + heap" where
  "CartesianMeshGenerator_init h self elementRes minCoord maxCoord periodic =
    (if \<not> is_list_or_tuple elementRes then
       Inl (TypeError ''elementRes object passed in must be of type list or tuple'')
     else if list_ex (\<lambda>item. \<not> isinstance_int item \<or> py_num item < 1) (seq_items elementRes) then
       Inl (TypeError ''elementRes list must only contain positive integers.'')
     else if length (seq_items elementRes) \<notin> {2, 3} then
       Inl (ValueError ''For elementRes, you must provide a tuple of length 2 or 3 (for respectively a 2d or 3d mesh).'')
     else if \<not> is_list_or_tuple minCoord then
       Inl (TypeError ''minCoord object passed in must be of type list or tuple'')
     else if list_ex (\<lambda>item. \<not> isinstance_int_float item) (seq_items minCoord) then
       Inl (TypeError ''minCoord object passed in must only contain objects of type int or float'')
     else if length (seq_items minCoord) \<noteq> length (seq_items elementRes) then
       Inl (ValueError ''minCoord tuple length ({}) must be the same as that of elementRes ({}).'')
     else if \<not> is_list_or_tuple maxCoord then
       Inl (TypeError ''maxCoord object passed in must be of type list or tuple'')
     else if list_ex (\<lambda>item. \<not> isinstance_int_float item) (seq_items maxCoord) then
       Inl (TypeError ''maxCoord object passed in must only contain objects of type int or float'')
     else if length (seq_items maxCoord) \<noteq> length (seq_items elementRes) then
       Inl (ValueError ''maxCoord tuple length ({}) must be the same as that of elementRes ({}).'')
     else if \<not> is_list_or_tuple periodic then
       Inl (TypeError ''periodic object passed in must be of type list or tuple in CartesianMeshGenerator'')
     else if list_ex (\<lambda>item. \<not> isinstance_bool item) (seq_items periodic) then
       Inl (TypeError ''periodic list must only contain booleans.'')
     else if length (seq_items periodic) \<noteq> length (seq_items periodic) then
       Inl (ValueError ''periodic tuple length ({}) must be the same as that of elementRes ({}).'')
     else if list_ex (\<lambda>ii. py_num (seq_items minCoord ! ii) \<ge> py_num (seq_items maxCoord ! ii))
               [0 ..< length (seq_items elementRes)] then
       Inl (ValueError ''minCoord[{}] must be less than maxCoord[{}]'')
     else
       Inr (h[self := (h ! self)
              \<lparr> a_elementRes := Some elementRes, a_minCoord := Some minCoord,
                a_maxCoord := Some maxCoord, a_dim := Some (length (seq_items elementRes)),
                a_periodic := Some periodic \<rparr>]))"

text \<open>
  Constructing a generator of a concrete class \<open>c\<close> (\<open>QuadraticCartesianGenerator\<close> and
  \<open>LinearCartesianGenerator\<close> inherit the initialiser): \<open>__new__\<close>, then \<open>__init__\<close>. The
  caller receives the new object only when the initialiser returns.
\<close>

definition new_CartesianMeshGenerator ::
  "heap \<Rightarrow> cls \<Rightarrow> pyval \<Rightarrow> pyval \<Rightarrow> pyval \<Rightarrow> pyval \<Rightarrow> exn + (nat \<times> heap)" where
  "new_CartesianMeshGenerator h c elementRes minCoord maxCoord periodic =
    (case alloc h c of (g, h1) \<Rightarrow>
      (case CartesianMeshGenerator_init h1 g elementRes minCoord maxCoord periodic of
         Inl e \<Rightarrow> Inl e
       | Inr h2 \<Rightarrow> Inr (g, h2)))"

text \<open>
  An entry of a resolution is a positive integer when it is a Python \<open>int\<close> greater
  than zero; \<open>True\<close>, an \<open>int\<close> of value 1, is one.
\<close>

fun positive_integer :: "pyval \<Rightarrow> bool" where
  "positive_integer (PInt n) = (0 < n)"
| "positive_integer (PBool b) = b"
| "positive_integer v = False"

section \<open>\<open>FeMesh\<close>: the \<open>generator\<close> property and \<open>__init__\<close>\<close>

definition supportedElementTypes :: "string list" where
  "supportedElementTypes = [''Q2'', ''Q1'', ''DQ1'', ''DPC1'', ''DQ0'']"

text \<open>
  The setter of \<open>generator\<close>. After the \<open>isinstance\<close> test the value is a reference; the
  mesh keeps a \<open>weakref.ref\<close> when the generator is the mesh itself and the value otherwise,
  and the native mesh receives the generator.
\<close>

definition generator_setter :: "heap \<Rightarrow> nat \<Rightarrow> pyval \<Rightarrow> exn + heap" where
  "generator_setter h self gen =
    (if \<not> isinstance h gen MeshGenerator then
       Inl (TypeError ''generator object passed in must be of type MeshGenerator'')
     else case gen of
       PRef g \<Rightarrow>
         Inr (h[self := (h ! self)
                \<lparr> a_generator := Some (if self = g then Weakref g else Direct gen),
                  native_generator := Some g \<rparr>])
     | _ \<Rightarrow> Inl (TypeError ''generator object passed in must be of type MeshGenerator''))"

text \<open>The getter of \<open>generator\<close>.\<close>

definition generator_getter :: "heap \<Rightarrow> nat \<Rightarrow> exn + pyval" where
  "generator_getter h self =
    (case a_generator (h ! self) of
       None \<Rightarrow> Inl (AttributeError ''_generator'')
     | Some (Weakref r) \<Rightarrow> Inr (deref h r)
     | Some (Direct g) \<Rightarrow> Inr g)"

text \<open>
  \<open>FeMesh.__init__(self, elementType, generator)\<close>. The last statement,
  \<open>super(FeMesh,self).__init__(**kwargs)\<close>, runs the initialiser of the next class in the
  method resolution order of the class of \<open>self\<close>: it is the parameter \<open>super_init\<close>, and is
  \<open>Inr\<close> for a plain \<open>FeMesh\<close> (the next class is then \<open>StgCompoundComponent\<close>, outside the
  module and taken to succeed).
\<close>

definition unsupported_elementType_error :: exn where
  "unsupported_elementType_error =
     ValueError ''elementType provided ({}) does not appear to be supported. Supported types are {}.''"

definition missing_generator_error :: exn where
  "missing_generator_error =
     ValueError ''No generator provided for mesh. You must provide a generator, or the mesh itself must be of the MeshGenerator class.''"

definition FeMesh_init ::
  "heap \<Rightarrow> nat \<Rightarrow> pyval \<Rightarrow> pyval \<Rightarrow> (heap \<Rightarrow> exn + heap) \<Rightarrow> exn + heap" where
  "FeMesh_init h self elType gen super_init =
    (case elType of
       PStr s \<Rightarrow>
         if upper s \<notin> set supportedElementTypes then Inl unsupported_elementType_error
         else
           let h1 = h[self := (h ! self) \<lparr> a_elementType := Some (upper s) \<rparr>] in
           if gen = PNone then
             if isinstance h1 (PRef self) MeshGenerator then
               (case generator_setter h1 self (PRef self) of
                  Inl e \<Rightarrow> Inl e
                | Inr h2 \<Rightarrow> super_init h2)
             else Inl missing_generator_error
           else
             (case generator_setter h1 self gen of
                Inl e \<Rightarrow> Inl e
              | Inr h2 \<Rightarrow> super_init h2)
     | _ \<Rightarrow> Inl (TypeError ''elementType object passed in must be of type str''))"

text \<open>The property \<open>elementType\<close>.\<close>

definition elementType :: "heap \<Rightarrow> nat \<Rightarrow> exn + string" where
  "elementType h self =
    (case a_elementType (h ! self) of
       None \<Rightarrow> Inl (AttributeError ''_elementType'')
     | Some s \<Rightarrow> Inr s)"

text \<open>Constructing a plain \<open>FeMesh\<close>: \<open>FeMesh(elementType, generator)\<close>.\<close>

definition new_FeMesh :: "heap \<Rightarrow> pyval \<Rightarrow> pyval \<Rightarrow> exn + (nat \<times> heap)" where
  "new_FeMesh h elType gen =
    (case alloc h FeMesh of (m, h1) \<Rightarrow>
      (case FeMesh_init h1 m elType gen Inr of
         Inl e \<Rightarrow> Inl e
       | Inr h2 \<Rightarrow> Inr (m, h2)))"

section \<open>The templated generators\<close>

text \<open>
  The property \<open>dim\<close> is defined by \<open>MeshGenerator\<close>; no other class of the module has it.
\<close>

definition MeshGenerator_dim :: "heap \<Rightarrow> pyval \<Rightarrow> exn + nat" where
  "MeshGenerator_dim h v =
    (if \<not> isinstance h v MeshGenerator then Inl (AttributeError ''dim'')
     else case v of
       PRef r \<Rightarrow> (case a_dim (h ! r) of None \<Rightarrow> Inl (AttributeError ''_dim'') | Some d \<Rightarrow> Inr d)
     | _ \<Rightarrow> Inl (AttributeError ''dim''))"

text \<open>The property \<open>geometryMesh\<close> of a templated generator.\<close>

definition geometryMesh :: "heap \<Rightarrow> nat \<Rightarrow> exn + pyval" where
  "geometryMesh h self =
    (case a_geometryMeshWeakref (h ! self) of
       None \<Rightarrow> Inl (AttributeError ''_geometryMeshWeakref'')
     | Some r \<Rightarrow> Inr (deref h r))"

definition TemplatedMeshGenerator_init :: "heap \<Rightarrow> nat \<Rightarrow> pyval \<Rightarrow> exn + heap" where
  "TemplatedMeshGenerator_init h self geomMesh =
    (if \<not> isinstance h geomMesh FeMesh then
       Inl (TypeError ''geometryMesh object passed in must be of type FeMesh'')
     else case geomMesh of
       PRef m \<Rightarrow>
         let h1 = h[self := (h ! self) \<lparr> a_geometryMeshWeakref := Some m \<rparr>] in
         (case geometryMesh h1 self of
            Inl e \<Rightarrow> Inl e
          | Inr gm \<Rightarrow>
             (case MeshGenerator_dim h1 gm of
                Inl e \<Rightarrow> Inl e
              | Inr d \<Rightarrow> Inr (h1[self := (h1 ! self) \<lparr> a_dim := Some d \<rparr>])))
     | _ \<Rightarrow> Inl (TypeError ''geometryMesh object passed in must be of type FeMesh''))"

text \<open>
  \<open>LinearInnerGenerator\<close> and \<open>dQ1Generator\<close> repeat the type test and call the parent;
  \<open>ConstantGenerator\<close> inherits the initialiser of \<open>TemplatedMeshGenerator\<close>.
\<close>

definition LinearInnerGenerator_init :: "heap \<Rightarrow> nat \<Rightarrow> pyval \<Rightarrow> exn + heap" where
  "LinearInnerGenerator_init h self geomMesh =
    (if \<not> isinstance h geomMesh FeMesh then
       Inl (TypeError ''geometryMesh object passed in must be of type FeMesh'')
     else TemplatedMeshGenerator_init h self geomMesh)"

definition dQ1Generator_init :: "heap \<Rightarrow> nat \<Rightarrow> pyval \<Rightarrow> exn + heap" where
  "dQ1Generator_init h self geomMesh =
    (if \<not> isinstance h geomMesh FeMesh then
       Inl (TypeError ''geometryMesh object passed in must be of type FeMesh'')
     else TemplatedMeshGenerator_init h self geomMesh)"

text \<open>
  Constructing a templated generator of class \<open>c\<close> with the initialiser \<open>init\<close> of that
  class.
\<close>

definition new_templated ::
  "heap \<Rightarrow> cls \<Rightarrow> (heap \<Rightarrow> nat \<Rightarrow> pyval \<Rightarrow> exn + heap) \<Rightarrow> pyval \<Rightarrow> exn + (nat \<times> heap)" where
  "new_templated h c init geomMesh =
    (case alloc h c of (g, h1) \<Rightarrow>
      (case init h1 g geomMesh of
         Inl e \<Rightarrow> Inl e
       | Inr h2 \<Rightarrow> Inr (g, h2)))"

section \<open>\<open>FeMesh_Cartesian\<close>: parsing the element types\<close>

text \<open>
  One turn of the loop of \<open>_strtolist\<close> over the supported types: the state is the string
  that is left and the list collected so far.
\<close>

definition strtolist_step :: "string \<times> string list \<Rightarrow> string \<Rightarrow> string \<times> string list" where
  "strtolist_step st mesh0 =
    (case st of (elType, mlist) \<Rightarrow>
      let mesh = upper mesh0 in
      if contains mesh elType \<and> length mesh = length elType then
        (remove_all mesh elType, mlist @ [mesh])
      else if contains mesh (take 2 elType) then
        (remove_all mesh elType, mlist @ [mesh])
      else if contains (CHR ''D'' # mesh) elType then
        (remove_all (CHR ''D'' # mesh) elType, mlist @ [CHR ''D'' # mesh])
      else if contains mesh elType then
        (remove_all mesh elType, mlist @ [mesh])
      else (elType, mlist))"

definition strtolist :: "string \<Rightarrow> string list" where
  "strtolist elType = snd (foldl strtolist_step (upper elType, []) supportedElementTypes)"

definition meshGenerator :: "string list" where
  "meshGenerator = [''C2Generator'', ''CartesianGenerator'']"

text \<open>
  The element types as \<open>__new__\<close> and \<open>__init__\<close> use them: a string is parsed, a list or
  a tuple is taken as it is.
\<close>

definition elementType_list :: "pyval \<Rightarrow> pyval list" where
  "elementType_list elType =
    (case elType of PStr s \<Rightarrow> map PStr (strtolist s) | _ \<Rightarrow> seq_items elType)"

text \<open>The loop of \<open>__new__\<close> over the element types (lines 493 to 498).\<close>

fun check_elTypes :: "pyval list \<Rightarrow> exn option" where
  "check_elTypes [] = None"
| "check_elTypes (PStr s # rest) =
     (if upper s \<notin> set supportedElementTypes then Some unsupported_elementType_error
      else check_elTypes rest)"
| "check_elTypes (v # rest) =
     Some (TypeError ''Items in provided elementType object must be of type str'')"

text \<open>\<open>v.upper()\<close> for a value that has passed the loop above.\<close>

fun str_upper :: "pyval \<Rightarrow> string" where
  "str_upper (PStr s) = upper s"
| "str_upper v = []"

text \<open>
  \<open>FeMesh_Cartesian.__new__\<close>, up to the call of the parent's \<open>__new__\<close>, which allocates
  the object: the result is the exception, or the entry \<open>_gen\<close> of \<open>overruleDict\<close> (\<open>None\<close>
  when the dictionary stays empty).
\<close>

definition FeMesh_Cartesian_new :: "pyval \<Rightarrow> exn + string option" where
  "FeMesh_Cartesian_new elType =
    (if \<not> (isinstance_str elType \<or> is_list_or_tuple elType) then
       Inl (TypeError ''elementType object passed in must be of type str, list or tuple'')
     else
       let ets = elementType_list elType in
       if length ets > 2 then
         Inl (ValueError ''A maximum of two mesh types are currently supported.'')
       else case check_elTypes ets of
         Some e \<Rightarrow> Inl e
       | None \<Rightarrow>
         (case ets of
            [] \<Rightarrow> Inl (IndexError ''list index out of range'')
          | et0 # rest \<Rightarrow>
             if str_upper et0 \<notin> set (take 2 supportedElementTypes) then
               Inl (ValueError ''Primary elementType must be of type {} or {}.'')
             else if length ets = 2 \<and> str_upper (ets ! 1) \<notin> set (drop 1 supportedElementTypes) then
               Inl (ValueError ''Secondary elementType must be one of type {}.'')
             else
               let gen0 = (if et0 = PStr (supportedElementTypes ! 0)
                           then Some (meshGenerator ! 0) else None);
                   gen1 = (if et0 = PStr (supportedElementTypes ! 1)
                           then Some (meshGenerator ! 1) else gen0)
               in Inr gen1))"

section \<open>The special sets\<close>

text \<open>
  \<open>_SpecialSetsDict\<close> is a \<open>dict\<close> with one more attribute, a \<open>weakref.ref\<close> to the mesh. Its
  values are callables. What a callable computes depends on the state of the program when
  it is called: the heap, and the state \<open>'w\<close> of the native library (coordinates and
  topology of the meshes).
\<close>

type_synonym ('w, 'r) rule = "heap \<Rightarrow> 'w \<Rightarrow> pyval \<Rightarrow> 'r"

record 'f SpecialSetsDict =
  femesh_weakref :: nat
  entries :: "string \<rightharpoonup> 'f"

definition SpecialSetsDict_init :: "nat \<Rightarrow> 'f SpecialSetsDict" where
  "SpecialSetsDict_init femesh = \<lparr> femesh_weakref = femesh, entries = Map.empty \<rparr>"

text \<open>\<open>__setitem__\<close> is the one of \<open>dict\<close>: it stores the value.\<close>

definition setitem :: "'f SpecialSetsDict \<Rightarrow> string \<Rightarrow> 'f \<Rightarrow> 'f SpecialSetsDict" where
  "setitem d index item = d \<lparr> entries := (entries d)(index \<mapsto> item) \<rparr>"

text \<open>
  \<open>__getitem__\<close>: the item of the regular \<open>dict\<close> (a \<open>KeyError\<close> when there is none), called
  with the mesh the weak reference gives in the heap \<open>h\<close> of the moment of the lookup.
\<close>

definition getitem ::
  "('w, 'r) rule SpecialSetsDict \<Rightarrow> heap \<Rightarrow> 'w \<Rightarrow> string \<Rightarrow> exn + 'r" where
  "getitem d h w index =
    (case entries d index of
       None \<Rightarrow> Inl (KeyError index)
     | Some item \<Rightarrow> Inr (item h w (deref h (femesh_weakref d))))"

text \<open>
  The property \<open>specialSets\<close> of a mesh: \<open>attr\<close> is the attribute \<open>_specialSets\<close> (\<open>None\<close>
  while the mesh does not have it); the dictionary is created at the first access.
\<close>

definition specialSets :: "'f SpecialSetsDict option \<Rightarrow> nat \<Rightarrow> 'f SpecialSetsDict" where
  "specialSets attr self = (case attr of None \<Rightarrow> SpecialSetsDict_init self | Some d \<Rightarrow> d)"

text \<open>
  The statement \<open>self.specialSets[index] = item\<close>; the result is the attribute
  \<open>_specialSets\<close> afterwards.
\<close>

definition specialSets_assign ::
  "'f SpecialSetsDict option \<Rightarrow> nat \<Rightarrow> string \<Rightarrow> 'f \<Rightarrow> 'f SpecialSetsDict option" where
  "specialSets_assign attr self index item = Some (setitem (specialSets attr self) index item)"

section \<open>\<open>FeMesh_Cartesian.__init__\<close>\<close>

text \<open>\<open>len(v)\<close>.\<close>

fun py_len :: "pyval \<Rightarrow> exn + nat" where
  "py_len (PStr s) = Inr (length s)"
| "py_len (PList xs) = Inr (length xs)"
| "py_len (PTuple xs) = Inr (length xs)"
| "py_len v = Inl (TypeError ''object has no len()'')"

text \<open>Lines 548 to 551: the periodicity flags when none are given.\<close>

definition default_periodic :: "pyval \<Rightarrow> pyval \<Rightarrow> exn + pyval" where
  "default_periodic periodic elementRes =
    (if periodic = PNone then
       (case py_len elementRes of
          Inl e \<Rightarrow> Inl e
        | Inr n \<Rightarrow> Inr (if n = 3 then PList [PBool False, PBool False, PBool False]
                        else PList [PBool False, PBool False]))
     else Inr periodic)"

text \<open>
  Lines 563 to 577: the secondary mesh. \<open>ets\<close> is the list of element types, \<open>periodic\<close>
  the flags after the default.
\<close>

definition build_secondary ::
  "heap \<Rightarrow> nat \<Rightarrow> pyval list \<Rightarrow> pyval \<Rightarrow> pyval \<Rightarrow> pyval \<Rightarrow> pyval \<Rightarrow> exn + heap" where
  "build_secondary h self ets elementRes minCoord maxCoord periodic =
    (let h0 = h[self := (h ! self) \<lparr> a_secondaryMesh := Some PNone \<rparr>] in
     if length ets = 2 then
       (case ets ! 1 of
          PStr s \<Rightarrow>
            (case
               (if upper s = supportedElementTypes ! 1 then
                  new_CartesianMeshGenerator h0 LinearCartesianGenerator
                    elementRes minCoord maxCoord periodic
                else if upper s = supportedElementTypes ! 2 then
                  new_templated h0 dQ1Generator dQ1Generator_init (PRef self)
                else if upper s = supportedElementTypes ! 3 then
                  new_templated h0 LinearInnerGenerator LinearInnerGenerator_init (PRef self)
                else if upper s = supportedElementTypes ! 4 then
                  new_templated h0 ConstantGenerator TemplatedMeshGenerator_init (PRef self)
                else
                  Inl (ValueError ''The secondary mesh must be of type {}: {} was passed in. Tested against {}''))
             of
               Inl e \<Rightarrow> Inl e
             | Inr (genSecondary, h1) \<Rightarrow>
                (case new_FeMesh h1 (PStr (upper s)) (PRef genSecondary) of
                   Inl e \<Rightarrow> Inl e
                 | Inr (sm, h2) \<Rightarrow>
                    Inr (h2[self := (h2 ! self) \<lparr> a_secondaryMesh := Some (PRef sm) \<rparr>])))
        | _ \<Rightarrow> Inl (AttributeError ''upper''))
     else Inr h0)"

text \<open>
  Lines 579 to 600: the special sets. \<open>ssc\<close> is the module \<open>_specialSets_Cartesian\<close>, which
  is not part of the sources: it gives the function of each name. \<open>d\<close> is \<open>self.dim\<close>. The
  removal of the walls of the periodic axes (lines 588 to 597) is a comment in the source
  and so is no part of the function.
\<close>

definition register_specialSets ::
  "(string \<Rightarrow> 'f) \<Rightarrow> 'f SpecialSetsDict option \<Rightarrow> nat \<Rightarrow> nat \<Rightarrow> 'f SpecialSetsDict option" where
  "register_specialSets ssc attr self d =
    (let a1 = specialSets_assign attr self ''MaxI_VertexSet'' (ssc ''MaxI_VertexSet'');
         a2 = specialSets_assign a1 self ''MinI_VertexSet'' (ssc ''MinI_VertexSet'');
         a3 = specialSets_assign a2 self ''MaxJ_VertexSet'' (ssc ''MaxJ_VertexSet'');
         a4 = specialSets_assign a3 self ''MinJ_VertexSet'' (ssc ''MinJ_VertexSet'');
         a6 = (if d = 3 then
                 specialSets_assign
                   (specialSets_assign a4 self ''MaxK_VertexSet'' (ssc ''MaxK_VertexSet''))
                   self ''MinK_VertexSet'' (ssc ''MinK_VertexSet'')
               else a4);
         a7 = specialSets_assign a6 self ''AllWalls'' (ssc ''AllWalls'')
     in specialSets_assign a7 self ''Empty'' (ssc ''Empty''))"

text \<open>
  The initialiser. \<open>super(FeMesh_Cartesian,self).__init__\<close> is \<open>FeMesh.__init__\<close> with no
  generator, whose own \<open>super().__init__\<close> is \<open>CartesianMeshGenerator.__init__\<close> (the method
  resolution order of \<open>FeMesh_Cartesian\<close> is \<open>FeMesh_Cartesian\<close>, \<open>FeMesh\<close>,
  \<open>CartesianMeshGenerator\<close>, \<open>MeshGenerator\<close>). \<open>self._setup()\<close> belongs to
  \<open>StgCompoundComponent\<close> and is taken to succeed. The object is new, so it has no
  attribute \<open>_specialSets\<close> before. The result is the heap and the attribute \<open>_specialSets\<close>.
\<close>

definition FeMesh_Cartesian_init ::
  "(string \<Rightarrow> 'f) \<Rightarrow> heap \<Rightarrow> nat \<Rightarrow> pyval \<Rightarrow> pyval \<Rightarrow> pyval \<Rightarrow> pyval \<Rightarrow> pyval
     \<Rightarrow> exn + (heap \<times> 'f SpecialSetsDict option)" where
  "FeMesh_Cartesian_init ssc h self elType elementRes minCoord maxCoord periodic0 =
    (case default_periodic periodic0 elementRes of
       Inl e \<Rightarrow> Inl e
     | Inr periodic \<Rightarrow>
        if \<not> (isinstance_str elType \<or> is_list_or_tuple elType) then
          Inl (TypeError ''object is not subscriptable'')
        else
          (case elementType_list elType of
             [] \<Rightarrow> Inl (IndexError ''list index out of range'')
           | et0 # rest \<Rightarrow>
              (case FeMesh_init h self et0 PNone
                      (\<lambda>h'. CartesianMeshGenerator_init h' self
                               elementRes minCoord maxCoord periodic) of
                 Inl e \<Rightarrow> Inl e
               | Inr h1 \<Rightarrow>
                  (case build_secondary h1 self (elementType_list elType)
                          elementRes minCoord maxCoord periodic of
                     Inl e \<Rightarrow> Inl e
                   | Inr h2 \<Rightarrow>
                      (case MeshGenerator_dim h2 (PRef self) of
                         Inl e \<Rightarrow> Inl e
                       | Inr d \<Rightarrow> Inr (h2, register_specialSets ssc None self d))))))"

text \<open>
  Constructing the mesh: \<open>__new__\<close> (its checks, then the allocation by the parent), then
  \<open>__init__\<close>. The result is the mesh, the heap and the attribute \<open>_specialSets\<close> of the mesh.
\<close>

definition new_FeMesh_Cartesian ::
  "(string \<Rightarrow> 'f) \<Rightarrow> heap \<Rightarrow> pyval \<Rightarrow> pyval \<Rightarrow> pyval \<Rightarrow> pyval \<Rightarrow> pyval
     \<Rightarrow> exn + (nat \<times> heap \<times> 'f SpecialSetsDict option)" where
  "new_FeMesh_Cartesian ssc h elType elementRes minCoord maxCoord periodic =
    (case FeMesh_Cartesian_new elType of
       Inl e \<Rightarrow> Inl e
     | Inr overrule \<Rightarrow>
        (case alloc h FeMesh_Cartesian of (m, h1) \<Rightarrow>
          (case FeMesh_Cartesian_init ssc h1 m elType elementRes minCoord maxCoord periodic of
             Inl e \<Rightarrow> Inl e
           | Inr (h2, ss) \<Rightarrow> Inr (m, h2, ss))))"


section \<open>\<open>FeMesh_IndexSet\<close>\<close>

text \<open>
  An index set: its topological index, the mesh it was extracted from (the attribute
  \<open>object\<close> of the parent class) and its indices.
\<close>

record IndexSet =
  topologicalIndex :: int
  object :: nat
  indices :: "nat set"

text \<open>
  \<open>_checkCompatWith\<close>. The check of the parent class \<open>ObjectifiedIndexSet\<close> comes first; that
  class is not part of the sources, so its check is the parameter \<open>parent\<close>. \<open>cself\<close> gives
  the native object \<open>_cself\<close> of each mesh; the source compares these.
\<close>

definition checkCompatWith ::
  "(IndexSet \<Rightarrow> IndexSet \<Rightarrow> exn option) \<Rightarrow> (nat \<Rightarrow> 'c) \<Rightarrow> IndexSet \<Rightarrow> IndexSet \<Rightarrow> exn option" where
  "checkCompatWith parent cself self other =
    (case parent self other of
       Some e \<Rightarrow> Some e
     | None \<Rightarrow>
        if topologicalIndex self \<noteq> topologicalIndex other then
          Some (TypeError ''This operation is illegal. The topologicalIndex for these sets do not correspond.'')
        else if cself (object self) \<noteq> cself (object other) then
          Some (TypeError ''This operation is illegal. The meshes associated with these IndexSets appear to be different.'')
        else None)"

text \<open>
  Modelled from the spec: the set algebra of the class \<open>uw.container.IndexSet\<close>, which is
  not part of the sources. Section 4.3 of the spec gives
  \<open>union/intersect/difference(other) -> IndexSet\<close>, failing when mesh identity or level
  differ, and section 8 gives the members of the result. Each operation runs the
  compatibility check of the set and then combines the indices.
\<close>

definition IndexSet_union ::
  "(IndexSet \<Rightarrow> IndexSet \<Rightarrow> exn option) \<Rightarrow> (nat \<Rightarrow> 'c) \<Rightarrow> IndexSet \<Rightarrow> IndexSet \<Rightarrow> exn + IndexSet" where
  "IndexSet_union parent cself A B =
    (case checkCompatWith parent cself A B of
       Some e \<Rightarrow> Inl e
     | None \<Rightarrow> Inr (A \<lparr> indices := indices A \<union> indices B \<rparr>))"

text \<open>
  Modelled from the spec: \<open>intersect(other)\<close> of section 4.3, for the class
  \<open>uw.container.IndexSet\<close>, which is not part of the sources.
\<close>

definition IndexSet_intersect ::
  "(IndexSet \<Rightarrow> IndexSet \<Rightarrow> exn option) \<Rightarrow> (nat \<Rightarrow> 'c) \<Rightarrow> IndexSet \<Rightarrow> IndexSet \<Rightarrow> exn + IndexSet" where
  "IndexSet_intersect parent cself A B =
    (case checkCompatWith parent cself A B of
       Some e \<Rightarrow> Inl e
     | None \<Rightarrow> Inr (A \<lparr> indices := indices A \<inter> indices B \<rparr>))"

text \<open>
  Modelled from the spec: \<open>difference(other)\<close> of section 4.3, for the class
  \<open>uw.container.IndexSet\<close>, which is not part of the sources.
\<close>

definition IndexSet_difference ::
  "(IndexSet \<Rightarrow> IndexSet \<Rightarrow> exn option) \<Rightarrow> (nat \<Rightarrow> 'c) \<Rightarrow> IndexSet \<Rightarrow> IndexSet \<Rightarrow> exn + IndexSet" where
  "IndexSet_difference parent cself A B =
    (case checkCompatWith parent cself A B of
       Some e \<Rightarrow> Inl e
     | None \<Rightarrow> Inr (A \<lparr> indices := indices A - indices B \<rparr>))"

section \<open>The number of nodes\<close>

text \<open>
  Modelled from the spec: the regular-grid generation of the native library
  \<open>libUnderworld\<close>, which is not part of the sources. Section 4.1 of the spec: the vertices
  lie on a tensor-product grid; the node count of an axis is the resolution plus one, and
  the resolution itself when the axis is periodic; the global vertex index is a
  linearisation over the per-axis node counts. A vertex is the list of its per-axis
  positions.
\<close>

definition axis_nodes :: "nat \<Rightarrow> bool \<Rightarrow> nat" where
  "axis_nodes res per = (if per then res else res + 1)"

text \<open>
  Modelled from the spec: the tensor-product grid of section 4.1 for the given per-axis node
  counts (the native generator is not part of the sources). The vertices come in the order
  of their linearised index.
\<close>

fun tensor_grid :: "nat list \<Rightarrow> nat list list" where
  "tensor_grid [] = [[]]"
| "tensor_grid (n # ns) = concat (map (\<lambda>i. map (\<lambda>v. i # v) (tensor_grid ns)) [0 ..< n])"

text \<open>
  Modelled from the spec: the vertices the regular-grid generation of section 4.1 places for
  a resolution and the periodicity flags (the native generator is not part of the sources).
\<close>

definition cartesian_vertices :: "nat list \<Rightarrow> bool list \<Rightarrow> nat list list" where
  "cartesian_vertices res per = tensor_grid (map2 axis_nodes res per)"

text \<open>The values the generator was configured with, as numbers and truth values.\<close>

fun py_nat :: "pyval \<Rightarrow> nat" where
  "py_nat (PInt i) = nat i"
| "py_nat (PBool b) = (if b then 1 else 0)"
| "py_nat v = 0"

fun py_truth :: "pyval \<Rightarrow> bool" where
  "py_truth (PBool b) = b"
| "py_truth v = False"

text \<open>
  Modelled from the spec: \<open>libUnderworld.StgDomain.Mesh_GetGlobalSize(mesh, level)\<close>, which
  is not part of the sources. Section 4.2 of the spec: the global vertex count is the count
  at level 0; the vertices are those the generator installed in the native mesh places for
  its resolution and periodicity. The spec gives no count for another level or another
  kind of generator: the result is \<open>None\<close> there.
\<close>

definition Mesh_GetGlobalSize :: "heap \<Rightarrow> nat \<Rightarrow> nat \<Rightarrow> nat option" where
  "Mesh_GetGlobalSize h m level =
    (if 0 < level then None
     else case native_generator (h ! m) of
       None \<Rightarrow> None
     | Some g \<Rightarrow>
        (case a_elementRes (h ! g) of
           None \<Rightarrow> None
         | Some res \<Rightarrow>
            (case a_periodic (h ! g) of
               None \<Rightarrow> None
             | Some per \<Rightarrow>
                Some (length (cartesian_vertices (map py_nat (seq_items res))
                                                 (map py_truth (seq_items per)))))))"

text \<open>The property \<open>nodesGlobal\<close> of \<open>FeMesh\<close>.\<close>

definition nodesGlobal :: "heap \<Rightarrow> nat \<Rightarrow> nat option" where
  "nodesGlobal h self = Mesh_GetGlobalSize h self 0"

section \<open>What a successful construction leaves in the heap\<close>

text \<open>
  Each lemma reads a successful result backwards: the arguments passed every check, and the
  heap is the old one with the new objects appended and the attributes assigned.
\<close>

lemma upper_char_idem: "upper_char (upper_char c) = upper_char c"
  by (simp add: upper_char_def)

lemma upper_idem: "upper (upper s) = upper s"
  by (simp add: upper_def upper_char_idem)

lemma klass_update:
  assumes "klass x = klass (h ! r)"
  shows "klass (h[r := x] ! i) = klass (h ! i)"
proof (cases "r < length h")
  case True
  with assms show ?thesis by (simp add: nth_list_update)
next
  case False
  then have "h[r := x] = h" by (simp add: list_update_beyond)
  then show ?thesis by simp
qed

lemma isinstance_update_klass:
  assumes "klass x = klass (h ! r)"
  shows "isinstance (h[r := x]) v c = isinstance h v c"
  using assms by (cases v) (simp_all add: klass_update)

lemma CartesianMeshGenerator_init_Inr:
  assumes "CartesianMeshGenerator_init h self er mn mx pe = Inr h'"
  shows "h' = h[self := (h ! self)
              \<lparr> a_elementRes := Some er, a_minCoord := Some mn, a_maxCoord := Some mx,
                a_dim := Some (length (seq_items er)), a_periodic := Some pe \<rparr>]"
    and "length (seq_items er) = 2 \<or> length (seq_items er) = 3"
    and "is_list_or_tuple er"
  using assms unfolding CartesianMeshGenerator_init_def
  by (simp_all split: if_splits)

lemma generator_setter_Inr:
  assumes "generator_setter h self g = Inr h'"
  shows "\<exists>r. g = PRef r \<and> r < length h \<and> issubclass (klass (h ! r)) MeshGenerator
           \<and> h' = h[self := (h ! self)
                \<lparr> a_generator := Some (if self = r then Weakref r else Direct g),
                  native_generator := Some r \<rparr>]"
  using assms unfolding generator_setter_def
  by (cases g) (simp_all split: if_splits)

lemma FeMesh_init_self_Inr:
  assumes "FeMesh_init h self et PNone super_init = Inr h'"
  shows "\<exists>s. et = PStr s \<and> upper s \<in> set supportedElementTypes
           \<and> self < length h \<and> issubclass (klass (h ! self)) MeshGenerator
           \<and> super_init (h[self := (h ! self)
                \<lparr> a_elementType := Some (upper s), a_generator := Some (Weakref self),
                  native_generator := Some self \<rparr>]) = Inr h'"
  using assms unfolding FeMesh_init_def
  by (cases et) (auto simp: Let_def isinstance_update_klass generator_setter_def split: if_splits sum.splits)

lemma new_FeMesh_Inr:
  assumes "new_FeMesh h (PStr t) (PRef g) = Inr (sm, h')"
  shows "sm = length h \<and> g < length h \<and> upper t \<in> set supportedElementTypes
       \<and> h' = h @ [(blank FeMesh) \<lparr> a_elementType := Some (upper t),
                      a_generator := Some (Direct (PRef g)), native_generator := Some g \<rparr>]"
  using assms unfolding new_FeMesh_def alloc_def FeMesh_init_def
  by (auto simp: Let_def generator_setter_def isinstance_update_klass nth_append blank_def issubclass_def
      split: if_splits sum.splits)

lemma new_CartesianMeshGenerator_Inr:
  assumes "new_CartesianMeshGenerator h c er mn mx pe = Inr (g, h')"
  shows "g = length h
       \<and> h' = h @ [(blank c) \<lparr> a_elementRes := Some er, a_minCoord := Some mn,
                      a_maxCoord := Some mx, a_dim := Some (length (seq_items er)),
                      a_periodic := Some pe \<rparr>]"
  using assms unfolding new_CartesianMeshGenerator_def alloc_def
  by (auto split: sum.splits dest!: CartesianMeshGenerator_init_Inr(1))

lemma TemplatedMeshGenerator_init_Inr:
  assumes "TemplatedMeshGenerator_init h g (PRef m) = Inr h'" and "g < length h"
  shows "\<exists>d. m < length h \<and> issubclass (klass (h ! m)) FeMesh
       \<and> a_dim (h[g := (h ! g) \<lparr> a_geometryMeshWeakref := Some m \<rparr>] ! m) = Some d
       \<and> h' = h[g := (h ! g) \<lparr> a_geometryMeshWeakref := Some m, a_dim := Some d \<rparr>]"
  using assms unfolding TemplatedMeshGenerator_init_def
  by (auto simp: Let_def geometryMesh_def deref_def MeshGenerator_dim_def isinstance_update_klass
      split: if_splits sum.splits option.splits)


lemma templated_init_cases:
  assumes "init = TemplatedMeshGenerator_init \<or> init = dQ1Generator_init
           \<or> init = LinearInnerGenerator_init"
    and "init h g v = Inr h'"
  shows "TemplatedMeshGenerator_init h g v = Inr h'"
  using assms
  by (auto simp: dQ1Generator_init_def LinearInnerGenerator_init_def split: if_splits)

lemma new_templated_Inr:
  assumes "new_templated h c init (PRef m) = Inr (g, h')"
    and "init = TemplatedMeshGenerator_init \<or> init = dQ1Generator_init
         \<or> init = LinearInnerGenerator_init"
    and "\<not> issubclass c FeMesh"
  shows "g = length h \<and> m < length h
       \<and> (\<exists>d. a_dim (h ! m) = Some d
            \<and> h' = h @ [(blank c) \<lparr> a_geometryMeshWeakref := Some m, a_dim := Some d \<rparr>])"
proof -
  from assms(1) have g: "g = length h" and i: "init (h @ [blank c]) (length h) (PRef m) = Inr h'"
    by (auto simp: new_templated_def alloc_def split: sum.splits)
  from templated_init_cases [OF assms(2) i]
  have t: "TemplatedMeshGenerator_init (h @ [blank c]) (length h) (PRef m) = Inr h'" .
  from TemplatedMeshGenerator_init_Inr [OF t]
  obtain d where m1: "m < length (h @ [blank c])"
    and k: "issubclass (klass ((h @ [blank c]) ! m)) FeMesh"
    and d: "a_dim ((h @ [blank c])[length h := ((h @ [blank c]) ! length h)
               \<lparr> a_geometryMeshWeakref := Some m \<rparr>] ! m) = Some d"
    and h': "h' = (h @ [blank c])[length h := ((h @ [blank c]) ! length h)
               \<lparr> a_geometryMeshWeakref := Some m, a_dim := Some d \<rparr>]"
    by auto
  have m: "m < length h"
  proof (rule ccontr)
    assume "\<not> m < length h"
    with m1 have "m = length h" by simp
    with k assms(3) show False by (simp add: blank_def)
  qed
  from d m have "a_dim (h ! m) = Some d" by (simp add: nth_append)
  with g m h' show ?thesis by simp
qed

lemma build_secondary_Inr:
  assumes "build_secondary h self ets er mn mx pe = Inr h2" and "self < length h"
  shows "(length ets \<noteq> 2 \<and> h2 = h[self := (h ! self) \<lparr> a_secondaryMesh := Some PNone \<rparr>])
       \<or> (length ets = 2 \<and> (\<exists>s gobj. ets ! 1 = PStr s
            \<and> h2 = h[self := (h ! self) \<lparr> a_secondaryMesh := Some (PRef (length h + 1)) \<rparr>]
                 @ [gobj, (blank FeMesh) \<lparr> a_elementType := Some (upper s),
                      a_generator := Some (Direct (PRef (length h))),
                      native_generator := Some (length h) \<rparr>]
            \<and> (upper s = ''Q1'' \<and> gobj = (blank LinearCartesianGenerator)
                     \<lparr> a_elementRes := Some er, a_minCoord := Some mn,
                       a_maxCoord := Some mx, a_dim := Some (length (seq_items er)),
                       a_periodic := Some pe \<rparr>
               \<or> (\<exists>d. a_dim (h ! self) = Some d
                   \<and> (upper s = ''DQ1'' \<and> gobj = (blank dQ1Generator)
                          \<lparr> a_geometryMeshWeakref := Some self, a_dim := Some d \<rparr>
                     \<or> upper s = ''DPC1'' \<and> gobj = (blank LinearInnerGenerator)
                          \<lparr> a_geometryMeshWeakref := Some self, a_dim := Some d \<rparr>
                     \<or> upper s = ''DQ0'' \<and> gobj = (blank ConstantGenerator)
                          \<lparr> a_geometryMeshWeakref := Some self, a_dim := Some d \<rparr>)))))"
proof (cases "length ets = 2")
  case False
  with assms show ?thesis by (simp add: build_secondary_def Let_def)
next
  case True
  let ?h0 = "h[self := (h ! self) \<lparr> a_secondaryMesh := Some PNone \<rparr>]"
  from assms(1) True obtain s where s: "ets ! 1 = PStr s"
    by (cases "ets ! 1") (simp_all add: build_secondary_def Let_def)
  let ?gen = "if upper s = supportedElementTypes ! 1 then
                  new_CartesianMeshGenerator ?h0 LinearCartesianGenerator er mn mx pe
                else if upper s = supportedElementTypes ! 2 then
                  new_templated ?h0 dQ1Generator dQ1Generator_init (PRef self)
                else if upper s = supportedElementTypes ! 3 then
                  new_templated ?h0 LinearInnerGenerator LinearInnerGenerator_init (PRef self)
                else if upper s = supportedElementTypes ! 4 then
                  new_templated ?h0 ConstantGenerator TemplatedMeshGenerator_init (PRef self)
                else
                  Inl (ValueError ''The secondary mesh must be of type {}: {} was passed in. Tested against {}'')"
  from assms(1) True s obtain g h1 sm h3 where
      gen: "?gen = Inr (g, h1)"
    and fm: "new_FeMesh h1 (PStr (upper s)) (PRef g) = Inr (sm, h3)"
    and h2: "h2 = h3[self := (h3 ! self) \<lparr> a_secondaryMesh := Some (PRef sm) \<rparr>]"
    by (auto simp: build_secondary_def Let_def split: sum.splits)
  from new_FeMesh_Inr [OF fm, unfolded upper_idem]
  have sm: "sm = length h1"
    and h3: "h3 = h1 @ [(blank FeMesh) \<lparr> a_elementType := Some (upper s),
                      a_generator := Some (Direct (PRef g)), native_generator := Some g \<rparr>]"
    by auto
  have tl: "supportedElementTypes ! 1 = ''Q1''" "supportedElementTypes ! 2 = ''DQ1''"
    "supportedElementTypes ! 3 = ''DPC1''" "supportedElementTypes ! 4 = ''DQ0''"
    by (simp_all add: supportedElementTypes_def)
  have self0: "self < length ?h0" using assms(2) by simp
  have dim0: "a_dim (?h0 ! self) = a_dim (h ! self)" using assms(2) by simp
  consider (q1) "upper s = ''Q1''" | (dq1) "upper s = ''DQ1''" | (dpc1) "upper s = ''DPC1''"
    | (dq0) "upper s = ''DQ0''"
    using gen [unfolded tl] by (auto split: if_splits)
  then show ?thesis
  proof cases
    case q1
    with gen [unfolded tl] have "new_CartesianMeshGenerator ?h0 LinearCartesianGenerator er mn mx pe = Inr (g, h1)"
      by simp
    from new_CartesianMeshGenerator_Inr [OF this] q1 True s sm h3 h2 assms(2)
    show ?thesis by (simp add: nth_append list_update_append)
  next
    case dq1
    with gen [unfolded tl] have "new_templated ?h0 dQ1Generator dQ1Generator_init (PRef self) = Inr (g, h1)"
      by simp
    from new_templated_Inr [OF this] dq1 True s sm h3 h2 assms(2) dim0
    show ?thesis by (auto simp: nth_append list_update_append issubclass_def)
  next
    case dpc1
    with gen [unfolded tl] have "new_templated ?h0 LinearInnerGenerator LinearInnerGenerator_init (PRef self) = Inr (g, h1)"
      by simp
    from new_templated_Inr [OF this] dpc1 True s sm h3 h2 assms(2) dim0
    show ?thesis by (auto simp: nth_append list_update_append issubclass_def)
  next
    case dq0
    with gen [unfolded tl] have "new_templated ?h0 ConstantGenerator TemplatedMeshGenerator_init (PRef self) = Inr (g, h1)"
      by simp
    from new_templated_Inr [OF this] dq0 True s sm h3 h2 assms(2) dim0
    show ?thesis by (auto simp: nth_append list_update_append issubclass_def)
  qed
qed

lemma py_len_seq: "is_list_or_tuple v \<Longrightarrow> py_len v = Inr (length (seq_items v))"
  by (cases v) simp_all

lemma FeMesh_Cartesian_new_Inr:
  assumes "FeMesh_Cartesian_new elType = Inr ov"
  shows "length (elementType_list elType) \<le> 2"
    and "check_elTypes (elementType_list elType) = None"
    and "length (elementType_list elType) = 2 \<Longrightarrow>
           str_upper (elementType_list elType ! 1) \<in> set (drop 1 supportedElementTypes)"
    and "elementType_list elType \<noteq> []"
    and "str_upper (hd (elementType_list elType)) \<in> set (take 2 supportedElementTypes)"
  using assms unfolding FeMesh_Cartesian_new_def
  by (auto simp: Let_def split: if_splits option.splits list.splits)

lemma new_FeMesh_Cartesian_Inr:
  assumes "new_FeMesh_Cartesian ssc h elType er mn mx pe0 = Inr (m, h', ss)"
  shows "\<exists>s rest pe. m = length h \<and> elementType_list elType = PStr s # rest
        \<and> default_periodic pe0 er = Inr pe
        \<and> is_list_or_tuple er
        \<and> (length (seq_items er) = 2 \<or> length (seq_items er) = 3)
        \<and> (\<exists>h0 h1. CartesianMeshGenerator_init h0 m er mn mx pe = Inr h1)
        \<and> build_secondary
             (h @ [(blank FeMesh_Cartesian)
                    \<lparr> a_elementType := Some (upper s), a_generator := Some (Weakref m),
                      native_generator := Some m, a_elementRes := Some er,
                      a_minCoord := Some mn, a_maxCoord := Some mx,
                      a_dim := Some (length (seq_items er)), a_periodic := Some pe \<rparr>])
             m (PStr s # rest) er mn mx pe = Inr h'
        \<and> ss = register_specialSets ssc None m (length (seq_items er))"
proof -
  from assms have m: "m = length h"
    and init: "FeMesh_Cartesian_init ssc (h @ [blank FeMesh_Cartesian]) m elType er mn mx pe0
                 = Inr (h', ss)"
    by (auto simp: new_FeMesh_Cartesian_def alloc_def split: sum.splits)
  let ?h0 = "h @ [blank FeMesh_Cartesian]"
  from init obtain pe et0 rest h1 d where
      pe: "default_periodic pe0 er = Inr pe"
    and ets: "elementType_list elType = et0 # rest"
    and fi: "FeMesh_init ?h0 m et0 PNone
               (\<lambda>h'. CartesianMeshGenerator_init h' m er mn mx pe) = Inr h1"
    and bs: "build_secondary h1 m (et0 # rest) er mn mx pe = Inr h'"
    and dim: "MeshGenerator_dim h' (PRef m) = Inr d"
    and ss: "ss = register_specialSets ssc None m d"
    by (auto simp: FeMesh_Cartesian_init_def split: sum.splits if_splits list.splits)
  from FeMesh_init_self_Inr [OF fi] obtain s where
      s: "et0 = PStr s"
    and ci: "CartesianMeshGenerator_init
               (?h0[m := (?h0 ! m) \<lparr> a_elementType := Some (upper s),
                   a_generator := Some (Weakref m), native_generator := Some m \<rparr>])
               m er mn mx pe = Inr h1"
    by auto
  note c = CartesianMeshGenerator_init_Inr [OF ci]
  let ?P = "(blank FeMesh_Cartesian)
                    \<lparr> a_elementType := Some (upper s), a_generator := Some (Weakref m),
                      native_generator := Some m, a_elementRes := Some er,
                      a_minCoord := Some mn, a_maxCoord := Some mx,
                      a_dim := Some (length (seq_items er)), a_periodic := Some pe \<rparr>"
  from c(1) m have h1: "h1 = h @ [?P]" by simp
  have ml: "m < length h1" using h1 m by simp
  from build_secondary_Inr [OF bs ml]
  have "a_dim (h' ! m) = Some (length (seq_items er))"
    using h1 m by (auto simp: nth_append)
  moreover have "isinstance h' (PRef m) MeshGenerator"
    using build_secondary_Inr [OF bs ml] h1 m
    by (auto simp: nth_append blank_def issubclass_def)
  ultimately have "d = length (seq_items er)"
    using dim by (simp add: MeshGenerator_dim_def)
  with m ets s pe c(2,3) ci bs h1 ss show ?thesis by auto
qed

lemmas construct_defs =
  new_FeMesh_Cartesian_def FeMesh_Cartesian_new_def FeMesh_Cartesian_init_def
  elementType_list_def strtolist_def strtolist_step_def supportedElementTypes_def
  upper_def upper_char_def alloc_def default_periodic_def FeMesh_init_def
  generator_setter_def CartesianMeshGenerator_init_def build_secondary_def
  MeshGenerator_dim_def blank_def issubclass_def unsupported_elementType_error_def
  new_templated_def TemplatedMeshGenerator_init_def dQ1Generator_init_def
  LinearInnerGenerator_init_def new_CartesianMeshGenerator_def new_FeMesh_def
  geometryMesh_def deref_def upt_conv_Cons Let_def

section \<open>Index sets: compatibility\<close>

text \<open>
  Claim C1. Two index sets whose topological indices differ, or that belong to different
  meshes, are not combined: the compatibility check returns an exception, and union,
  intersection and difference each fail with it. Every mesh object has a native mesh of its
  own (\<open>cself\<close> is injective), which is how the comparison of the native meshes tells the
  meshes apart. The statement holds whatever the check of the parent class does. Read in the
  other direction: where an operation returns a set, both the topological index and the
  mesh are the same.
\<close>

theorem incompatible_sets_rejected:
  assumes "inj cself"
    and "topologicalIndex A \<noteq> topologicalIndex B \<or> object A \<noteq> object B"
  shows "\<exists>e. checkCompatWith parent cself A B = Some e
            \<and> IndexSet_union parent cself A B = Inl e
            \<and> IndexSet_intersect parent cself A B = Inl e
            \<and> IndexSet_difference parent cself A B = Inl e"
proof -
  from assms
  have "topologicalIndex A \<noteq> topologicalIndex B \<or> cself (object A) \<noteq> cself (object B)"
    by (auto dest: injD)
  then have "\<exists>e. checkCompatWith parent cself A B = Some e"
    by (cases "parent A B") (auto simp: checkCompatWith_def)
  then obtain e where "checkCompatWith parent cself A B = Some e" ..
  then show ?thesis
    by (simp add: IndexSet_union_def IndexSet_intersect_def IndexSet_difference_def)
qed

theorem incompatible_sets_rejected_witness:
  "inj (\<lambda>r::nat. r)
   \<and> topologicalIndex \<lparr> topologicalIndex = 0, object = 0, indices = {0, 1, 2} \<rparr>
        \<noteq> topologicalIndex \<lparr> topologicalIndex = 1, object = 0, indices = {0} \<rparr>
   \<and> (\<exists>e. IndexSet_union (\<lambda>a b. None) (\<lambda>r::nat. r)
              \<lparr> topologicalIndex = 0, object = 0, indices = {0, 1, 2} \<rparr>
              \<lparr> topologicalIndex = 1, object = 0, indices = {0} \<rparr> = Inl e)
   \<and> object \<lparr> topologicalIndex = 0, object = 0, indices = {0, 1, 2} \<rparr>
        \<noteq> object \<lparr> topologicalIndex = 0, object = 1, indices = {0} \<rparr>
   \<and> (\<exists>e. IndexSet_difference (\<lambda>a b. None) (\<lambda>r::nat. r)
              \<lparr> topologicalIndex = 0, object = 0, indices = {0, 1, 2} \<rparr>
              \<lparr> topologicalIndex = 0, object = 1, indices = {0} \<rparr> = Inl e)"
  using incompatible_sets_rejected
    [of "\<lambda>r::nat. r" "\<lparr> topologicalIndex = 0, object = 0, indices = {0, 1, 2} \<rparr>"
        "\<lparr> topologicalIndex = 1, object = 0, indices = {0} \<rparr>" "\<lambda>a b. None"]
    incompatible_sets_rejected
    [of "\<lambda>r::nat. r" "\<lparr> topologicalIndex = 0, object = 0, indices = {0, 1, 2} \<rparr>"
        "\<lparr> topologicalIndex = 0, object = 1, indices = {0} \<rparr>" "\<lambda>a b. None"]
  by auto

section \<open>The Cartesian generator: construction\<close>

text \<open>
  Claim C3. The claim is that a list of periodicity flags whose length differs from that of
  the resolution makes the construction fail. The source compares \<open>len(periodic)\<close> with
  itself, so the test never fires: a two-dimensional generator given three flags is
  constructed, with the three flags stored and dimension 2.
\<close>

theorem periodic_length_not_checked:
  "new_CartesianMeshGenerator [] LinearCartesianGenerator
     (PTuple [PInt 2, PInt 2]) (PTuple [PFloat 0, PFloat 0]) (PTuple [PFloat 1, PFloat 1])
     (PList [PBool False, PBool False, PBool False])
   = Inr (0, [(blank LinearCartesianGenerator)
           \<lparr> a_elementRes := Some (PTuple [PInt 2, PInt 2]),
             a_minCoord := Some (PTuple [PFloat 0, PFloat 0]),
             a_maxCoord := Some (PTuple [PFloat 1, PFloat 1]),
             a_dim := Some 2,
             a_periodic := Some (PList [PBool False, PBool False, PBool False]) \<rparr>])"
  by (simp add: new_CartesianMeshGenerator_def alloc_def CartesianMeshGenerator_init_def
        upt_conv_Cons)

theorem periodic_length_not_checked_witness:
  "\<exists>g h. new_CartesianMeshGenerator [] LinearCartesianGenerator
     (PTuple [PInt 2, PInt 2]) (PTuple [PFloat 0, PFloat 0]) (PTuple [PFloat 1, PFloat 1])
     (PList [PBool False, PBool False, PBool False]) = Inr (g, h)
     \<and> length (seq_items (PList [PBool False, PBool False, PBool False]))
         \<noteq> length (seq_items (PTuple [PInt 2, PInt 2]))"
  using periodic_length_not_checked by simp

lemma positive_integer_iff:
  "positive_integer x \<longleftrightarrow> \<not> (\<not> isinstance_int x \<or> py_num x < 1)"
  by (cases x) auto

lemma CartesianMeshGenerator_init_invalid:
  assumes "(\<exists>x \<in> set (seq_items elementRes). \<not> positive_integer x)
         \<or> length (seq_items elementRes) \<notin> {2, 3}
         \<or> length (seq_items minCoord) \<noteq> length (seq_items elementRes)
         \<or> length (seq_items maxCoord) \<noteq> length (seq_items elementRes)
         \<or> (\<exists>i. i < length (seq_items minCoord) \<and> i < length (seq_items maxCoord)
                \<and> py_num (seq_items minCoord ! i) \<ge> py_num (seq_items maxCoord ! i))"
  shows "\<exists>msg. CartesianMeshGenerator_init h self elementRes minCoord maxCoord periodic
                 = Inl (TypeError msg)
             \<or> CartesianMeshGenerator_init h self elementRes minCoord maxCoord periodic
                 = Inl (ValueError msg)"
  using assms unfolding CartesianMeshGenerator_init_def list_ex_iff positive_integer_iff
  by auto

text \<open>
  Claim C4. When the resolution has an entry that is not a positive integer, or its length
  is neither 2 nor 3, or the length of the minimum or of the maximum corner differs from it,
  or the minimum is not below the maximum on some axis, the construction of the generator
  ends with a \<open>TypeError\<close> or a \<open>ValueError\<close>: the caller gets the exception and neither an
  object nor a heap that holds one. The construction of a \<open>FeMesh_Cartesian\<close>, which is its
  own Cartesian generator, ends with an exception as well.
\<close>

theorem invalid_generator_rejected:
  assumes "(\<exists>x \<in> set (seq_items elementRes). \<not> positive_integer x)
         \<or> length (seq_items elementRes) \<notin> {2, 3}
         \<or> length (seq_items minCoord) \<noteq> length (seq_items elementRes)
         \<or> length (seq_items maxCoord) \<noteq> length (seq_items elementRes)
         \<or> (\<exists>i. i < length (seq_items minCoord) \<and> i < length (seq_items maxCoord)
                \<and> py_num (seq_items minCoord ! i) \<ge> py_num (seq_items maxCoord ! i))"
  shows "(\<exists>msg. new_CartesianMeshGenerator h c elementRes minCoord maxCoord periodic
                 = Inl (TypeError msg)
             \<or> new_CartesianMeshGenerator h c elementRes minCoord maxCoord periodic
                 = Inl (ValueError msg))
       \<and> (\<exists>e. new_FeMesh_Cartesian ssc h elType elementRes minCoord maxCoord periodic = Inl e)"
proof -
  obtain msg where
    "CartesianMeshGenerator_init (h @ [blank c]) (length h) elementRes minCoord maxCoord periodic
       = Inl (TypeError msg)
     \<or> CartesianMeshGenerator_init (h @ [blank c]) (length h) elementRes minCoord maxCoord periodic
       = Inl (ValueError msg)"
    using CartesianMeshGenerator_init_invalid [OF assms] by blast
  then have gen: "\<exists>msg. new_CartesianMeshGenerator h c elementRes minCoord maxCoord periodic
                 = Inl (TypeError msg)
             \<or> new_CartesianMeshGenerator h c elementRes minCoord maxCoord periodic
                 = Inl (ValueError msg)"
    by (auto simp: new_CartesianMeshGenerator_def alloc_def)
  have "new_FeMesh_Cartesian ssc h elType elementRes minCoord maxCoord periodic \<noteq> Inr r" for r
  proof
    assume "new_FeMesh_Cartesian ssc h elType elementRes minCoord maxCoord periodic = Inr r"
    then have "new_FeMesh_Cartesian ssc h elType elementRes minCoord maxCoord periodic
                 = Inr (fst r, fst (snd r), snd (snd r))"
      by simp
    from new_FeMesh_Cartesian_Inr [OF this] obtain pe h0 h1 where
      "CartesianMeshGenerator_init h0 (fst r) elementRes minCoord maxCoord pe = Inr h1"
      by blast
    with CartesianMeshGenerator_init_invalid [OF assms, of h0 "fst r" pe] show False
      by auto
  qed
  then have "\<exists>e. new_FeMesh_Cartesian ssc h elType elementRes minCoord maxCoord periodic = Inl e"
    by (cases "new_FeMesh_Cartesian ssc h elType elementRes minCoord maxCoord periodic") auto
  with gen show ?thesis by blast
qed

theorem invalid_generator_rejected_witness:
  "(\<exists>x \<in> set (seq_items (PTuple [PInt 2, PInt 0])). \<not> positive_integer x)
   \<and> (\<exists>msg. new_CartesianMeshGenerator [] LinearCartesianGenerator
               (PTuple [PInt 2, PInt 0]) (PTuple [PFloat 0, PFloat 0])
               (PTuple [PFloat 1, PFloat 1]) (PList [PBool False, PBool False])
             = Inl (TypeError msg)
          \<or> new_CartesianMeshGenerator [] LinearCartesianGenerator
               (PTuple [PInt 2, PInt 0]) (PTuple [PFloat 0, PFloat 0])
               (PTuple [PFloat 1, PFloat 1]) (PList [PBool False, PBool False])
             = Inl (ValueError msg))
   \<and> (\<exists>e. new_FeMesh_Cartesian (\<lambda>n. n) [] (PStr ''Q1'')
               (PTuple [PInt 2, PInt 0]) (PTuple [PFloat 0, PFloat 0])
               (PTuple [PFloat 1, PFloat 1]) (PList [PBool False, PBool False]) = Inl e)"
proof -
  have hyp: "\<exists>x \<in> set (seq_items (PTuple [PInt 2, PInt 0])). \<not> positive_integer x"
    by simp
  show ?thesis
    using hyp invalid_generator_rejected
      [of "PTuple [PInt 2, PInt 0]" "PTuple [PFloat 0, PFloat 0]" "PTuple [PFloat 1, PFloat 1]"
          "[]" LinearCartesianGenerator "PList [PBool False, PBool False]"
          "\<lambda>n. n" "PStr ''Q1''"]
    by blast
qed

section \<open>The special sets: lookup\<close>

text \<open>
  Claim C8. Looking a registered name up calls the stored function, with the mesh the
  dictionary is bound to, in the state of the program at the time of the lookup, and
  returns what the function returns. The heap \<open>h\<close> and the native state \<open>w\<close> are those of
  the lookup, whatever they were when the function was stored: a lookup after the geometry
  has changed gives the result for the changed geometry.
\<close>

theorem lookup_calls_rule_at_lookup_time:
  assumes "entries d name = Some item" and "femesh_weakref d < length h"
  shows "getitem d h w name = Inr (item h w (PRef (femesh_weakref d)))"
  using assms by (simp add: getitem_def deref_def)

theorem lookup_calls_rule_at_lookup_time_witness:
  "entries (setitem (SpecialSetsDict_init 0) ''Empty'' (\<lambda>h w m. (w, m))) ''Empty''
     = Some (\<lambda>h w m. (w, m))
   \<and> femesh_weakref (setitem (SpecialSetsDict_init 0) ''Empty'' (\<lambda>h w m. (w, m)))
       < length [blank FeMesh_Cartesian]
   \<and> getitem (setitem (SpecialSetsDict_init 0) ''Empty'' (\<lambda>h w m. (w, m)))
       [blank FeMesh_Cartesian] (1::nat) ''Empty'' = Inr (1, PRef 0)
   \<and> getitem (setitem (SpecialSetsDict_init 0) ''Empty'' (\<lambda>h w m. (w, m)))
       [blank FeMesh_Cartesian] (2::nat) ''Empty'' = Inr (2, PRef 0)"
proof -
  let ?d = "setitem (SpecialSetsDict_init 0) ''Empty'' (\<lambda>(h::heap) (w::nat) (m::pyval). (w, m))"
  have e: "entries ?d ''Empty'' = Some (\<lambda>h w m. (w, m))"
    by (simp add: setitem_def)
  have l: "femesh_weakref ?d < length [blank FeMesh_Cartesian]"
    by (simp add: setitem_def SpecialSetsDict_init_def)
  show ?thesis
    using e l lookup_calls_rule_at_lookup_time [OF e l, of 1]
      lookup_calls_rule_at_lookup_time [OF e l, of 2]
    by (simp add: setitem_def SpecialSetsDict_init_def)
qed

section \<open>The generator of a mesh\<close>

text \<open>
  Claim C10. Assigning to \<open>generator\<close> a value that is not a \<open>MeshGenerator\<close> raises a
  \<open>TypeError\<close>. Assigning the mesh itself stores a weak reference only, and reading the
  property still gives the mesh. Assigning any other generator stores it, and reading the
  property gives back the generator that was assigned.
\<close>

theorem generator_set_then_get:
  "(\<not> isinstance h g MeshGenerator \<longrightarrow>
      (\<exists>msg. generator_setter h m g = Inl (TypeError msg)))
 \<and> (m < length h \<and> isinstance h (PRef m) MeshGenerator \<longrightarrow>
      (\<exists>h'. generator_setter h m (PRef m) = Inr h'
            \<and> a_generator (h' ! m) = Some (Weakref m)
            \<and> generator_getter h' m = Inr (PRef m)))
 \<and> (m < length h \<and> isinstance h g MeshGenerator \<and> g \<noteq> PRef m \<longrightarrow>
      (\<exists>h'. generator_setter h m g = Inr h'
            \<and> a_generator (h' ! m) = Some (Direct g)
            \<and> generator_getter h' m = Inr g))"
  by (cases g) (auto simp: generator_setter_def generator_getter_def deref_def)

theorem generator_set_then_get_witness:
  "\<not> isinstance [blank FeMesh_Cartesian, blank LinearCartesianGenerator] (PInt 3) MeshGenerator
 \<and> (\<exists>msg. generator_setter [blank FeMesh_Cartesian, blank LinearCartesianGenerator] 0 (PInt 3)
            = Inl (TypeError msg))
 \<and> (0 < length [blank FeMesh_Cartesian, blank LinearCartesianGenerator]
     \<and> isinstance [blank FeMesh_Cartesian, blank LinearCartesianGenerator] (PRef 0) MeshGenerator)
 \<and> (\<exists>h'. generator_setter [blank FeMesh_Cartesian, blank LinearCartesianGenerator] 0 (PRef 0)
            = Inr h' \<and> generator_getter h' 0 = Inr (PRef 0))
 \<and> (isinstance [blank FeMesh_Cartesian, blank LinearCartesianGenerator] (PRef 1) MeshGenerator
     \<and> PRef 1 \<noteq> PRef 0)
 \<and> (\<exists>h'. generator_setter [blank FeMesh_Cartesian, blank LinearCartesianGenerator] 0 (PRef 1)
            = Inr h' \<and> generator_getter h' 0 = Inr (PRef 1))"
proof -
  let ?h = "[blank FeMesh_Cartesian, blank LinearCartesianGenerator]"
  have a: "\<not> isinstance ?h (PInt 3) MeshGenerator" by simp
  have b: "0 < length ?h \<and> isinstance ?h (PRef 0) MeshGenerator"
    by (simp add: blank_def issubclass_def)
  have c: "0 < length ?h \<and> isinstance ?h (PRef 1) MeshGenerator \<and> PRef 1 \<noteq> PRef 0"
    by (simp add: blank_def issubclass_def)
  show ?thesis
    using a b c generator_set_then_get [of ?h "PInt 3" 0]
      generator_set_then_get [of ?h "PRef 1" 0]
    by blast
qed

section \<open>The special sets of a Cartesian mesh\<close>

text \<open>
  Claim C7. After a Cartesian mesh has been constructed, whatever its periodicity flags,
  the dictionary of its special sets is bound to the mesh and holds the wall sets
  \<open>MinI_VertexSet\<close>, \<open>MaxI_VertexSet\<close>, \<open>MinJ_VertexSet\<close> and \<open>MaxJ_VertexSet\<close>, and in three
  dimensions \<open>MinK_VertexSet\<close> and \<open>MaxK_VertexSet\<close>, each with the function of that name of
  the module \<open>_specialSets_Cartesian\<close>: the constructor removes none of them for a periodic
  axis.
\<close>

theorem periodic_walls_registered:
  assumes "new_FeMesh_Cartesian ssc h elType elementRes minCoord maxCoord periodic
             = Inr (m, h', ss)"
  shows "\<exists>d. ss = Some d \<and> femesh_weakref d = m
        \<and> entries d ''MinI_VertexSet'' = Some (ssc ''MinI_VertexSet'')
        \<and> entries d ''MaxI_VertexSet'' = Some (ssc ''MaxI_VertexSet'')
        \<and> entries d ''MinJ_VertexSet'' = Some (ssc ''MinJ_VertexSet'')
        \<and> entries d ''MaxJ_VertexSet'' = Some (ssc ''MaxJ_VertexSet'')
        \<and> (length (seq_items elementRes) = 3 \<longrightarrow>
             entries d ''MinK_VertexSet'' = Some (ssc ''MinK_VertexSet'')
           \<and> entries d ''MaxK_VertexSet'' = Some (ssc ''MaxK_VertexSet''))"
proof -
  from new_FeMesh_Cartesian_Inr [OF assms]
  have "ss = register_specialSets ssc None m (length (seq_items elementRes))" by auto
  then show ?thesis
    by (simp add: register_specialSets_def specialSets_assign_def specialSets_def
          setitem_def SpecialSetsDict_init_def Let_def)
qed

theorem periodic_walls_registered_witness:
  "\<exists>h' d. new_FeMesh_Cartesian (\<lambda>n. n) [] (PStr ''Q1/dQ0'') (PTuple [PInt 2, PInt 2, PInt 4])
      (PTuple [PFloat 0, PFloat 0, PFloat 0]) (PTuple [PFloat 1, PFloat 1, PFloat 1])
      (PList [PBool True, PBool False, PBool True]) = Inr (0, h', Some d)
    \<and> length (seq_items (PTuple [PInt 2, PInt 2, PInt 4])) = 3
    \<and> entries d ''MinI_VertexSet'' = Some ''MinI_VertexSet''
    \<and> entries d ''MaxI_VertexSet'' = Some ''MaxI_VertexSet''
    \<and> entries d ''MinK_VertexSet'' = Some ''MinK_VertexSet''
    \<and> entries d ''MaxK_VertexSet'' = Some ''MaxK_VertexSet''"
proof -
  have "\<exists>h' ss. new_FeMesh_Cartesian (\<lambda>n. n) [] (PStr ''Q1/dQ0'') (PTuple [PInt 2, PInt 2, PInt 4])
      (PTuple [PFloat 0, PFloat 0, PFloat 0]) (PTuple [PFloat 1, PFloat 1, PFloat 1])
      (PList [PBool True, PBool False, PBool True]) = Inr (0, h', ss)"
    by (simp add: construct_defs)
  then obtain h' ss where c: "new_FeMesh_Cartesian (\<lambda>n. n) [] (PStr ''Q1/dQ0'') (PTuple [PInt 2, PInt 2, PInt 4])
      (PTuple [PFloat 0, PFloat 0, PFloat 0]) (PTuple [PFloat 1, PFloat 1, PFloat 1])
      (PList [PBool True, PBool False, PBool True]) = Inr (0, h', ss)"
    by blast
  from periodic_walls_registered [OF c] c show ?thesis by auto
qed

section \<open>The global number of nodes\<close>

lemma length_tensor_grid: "length (tensor_grid ns) = prod_list ns"
  by (induction ns) (simp_all add: length_concat comp_def sum_list_triv)

lemma prod_list_map2_nth:
  assumes "length xs = length ys"
  shows "prod_list (map2 f xs ys) = (\<Prod>i<length xs. f (xs ! i) (ys ! i))"
  using assms
  by (induction xs ys rule: list_induct2) (simp_all add: prod.lessThan_Suc_shift del: prod.lessThan_Suc)

lemma default_periodic_length:
  assumes "default_periodic pe0 er = Inr pe" and "is_list_or_tuple er"
    and "length (seq_items er) = 2 \<or> length (seq_items er) = 3"
    and "pe0 = PNone \<or> length (seq_items pe0) = length (seq_items er)"
  shows "length (seq_items pe) = length (seq_items er)"
    and "i < length (seq_items er) \<Longrightarrow>
           py_truth (seq_items pe ! i) = (pe0 \<noteq> PNone \<and> py_truth (seq_items pe0 ! i))"
  using assms
  by (auto simp: default_periodic_def py_len_seq nth_Cons' split: if_splits)

text \<open>
  Claim C2. For a Cartesian mesh that was constructed, with one periodicity flag for each
  axis (or none given, which means no periodic axis), the global number of nodes is the
  product over the axes of the resolution for a periodic axis and of the resolution plus one
  for any other axis. In particular the mesh with \<open>elementRes=(2,2)\<close>, \<open>minCoord=(-1,-1)\<close>,
  \<open>maxCoord=(1,1)\<close> and no periodic axis has 9 nodes.
\<close>

theorem global_vertex_count:
  assumes "new_FeMesh_Cartesian ssc h elType elementRes minCoord maxCoord periodic
             = Inr (m, h', ss)"
    and "periodic = PNone \<or> length (seq_items periodic) = length (seq_items elementRes)"
  shows "nodesGlobal h' m =
           Some (\<Prod>axis<length (seq_items elementRes).
                   if periodic \<noteq> PNone \<and> py_truth (seq_items periodic ! axis)
                   then py_nat (seq_items elementRes ! axis)
                   else py_nat (seq_items elementRes ! axis) + 1)"
proof -
  from new_FeMesh_Cartesian_Inr [OF assms(1)] obtain s rest pe where
      m: "m = length h"
    and pe: "default_periodic periodic elementRes = Inr pe"
    and lt: "is_list_or_tuple elementRes"
    and len: "length (seq_items elementRes) = 2 \<or> length (seq_items elementRes) = 3"
    and bs: "build_secondary
             (h @ [(blank FeMesh_Cartesian)
                    \<lparr> a_elementType := Some (upper s), a_generator := Some (Weakref m),
                      native_generator := Some m, a_elementRes := Some elementRes,
                      a_minCoord := Some minCoord, a_maxCoord := Some maxCoord,
                      a_dim := Some (length (seq_items elementRes)),
                      a_periodic := Some pe \<rparr>])
             m (PStr s # rest) elementRes minCoord maxCoord pe = Inr h'"
    by blast
  have ml: "m < length (h @ [(blank FeMesh_Cartesian)
                    \<lparr> a_elementType := Some (upper s), a_generator := Some (Weakref m),
                      native_generator := Some m, a_elementRes := Some elementRes,
                      a_minCoord := Some minCoord, a_maxCoord := Some maxCoord,
                      a_dim := Some (length (seq_items elementRes)),
                      a_periodic := Some pe \<rparr>])"
    using m by simp
  from build_secondary_Inr [OF bs ml] m
  have attrs: "native_generator (h' ! m) = Some m" "a_elementRes (h' ! m) = Some elementRes"
    "a_periodic (h' ! m) = Some pe"
    by (auto simp: nth_append)
  note dp = default_periodic_length [OF pe lt len assms(2)]
  have "nodesGlobal h' m =
          Some (prod_list (map2 axis_nodes (map py_nat (seq_items elementRes))
                                           (map py_truth (seq_items pe))))"
    by (simp add: nodesGlobal_def Mesh_GetGlobalSize_def attrs cartesian_vertices_def
          length_tensor_grid)
  also have "prod_list (map2 axis_nodes (map py_nat (seq_items elementRes))
                                           (map py_truth (seq_items pe)))
      = (\<Prod>i<length (seq_items elementRes).
            axis_nodes (py_nat (seq_items elementRes ! i)) (py_truth (seq_items pe ! i)))"
    using dp(1) by (subst prod_list_map2_nth) simp_all
  also have "\<dots> = (\<Prod>axis<length (seq_items elementRes).
                   if periodic \<noteq> PNone \<and> py_truth (seq_items periodic ! axis)
                   then py_nat (seq_items elementRes ! axis)
                   else py_nat (seq_items elementRes ! axis) + 1)"
    by (rule prod.cong) (simp_all add: dp(2) axis_nodes_def)
  finally show ?thesis .
qed

theorem global_vertex_count_witness:
  "(\<exists>h' ss. new_FeMesh_Cartesian (\<lambda>n. n) [] (PStr ''Q1'') (PTuple [PInt 2, PInt 2])
      (PTuple [PFloat (-1), PFloat (-1)]) (PTuple [PFloat 1, PFloat 1]) PNone = Inr (0, h', ss)
    \<and> nodesGlobal h' 0 = Some 9)
 \<and> (\<exists>h' ss. new_FeMesh_Cartesian (\<lambda>n. n) [] (PStr ''Q1/dQ0'') (PTuple [PInt 16, PInt 16])
      (PTuple [PFloat 0, PFloat 0]) (PTuple [PFloat 1, PFloat 1])
      (PList [PBool True, PBool False]) = Inr (0, h', ss)
    \<and> length (seq_items (PList [PBool True, PBool False]))
        = length (seq_items (PTuple [PInt 16, PInt 16]))
    \<and> nodesGlobal h' 0 = Some 272)"
proof -
  have "\<exists>h' ss. new_FeMesh_Cartesian (\<lambda>n. n) [] (PStr ''Q1'') (PTuple [PInt 2, PInt 2])
      (PTuple [PFloat (-1), PFloat (-1)]) (PTuple [PFloat 1, PFloat 1]) PNone = Inr (0, h', ss)"
    by (simp add: construct_defs)
  then obtain h1 s1 where
    c1: "new_FeMesh_Cartesian (\<lambda>n. n) [] (PStr ''Q1'') (PTuple [PInt 2, PInt 2])
      (PTuple [PFloat (-1), PFloat (-1)]) (PTuple [PFloat 1, PFloat 1]) PNone = Inr (0, h1, s1)"
    by blast
  have r1: "nodesGlobal h1 0 = Some 9"
    using global_vertex_count [OF c1] by (simp add: numeral_2_eq_2)
  have "\<exists>h' ss. new_FeMesh_Cartesian (\<lambda>n. n) [] (PStr ''Q1/dQ0'') (PTuple [PInt 16, PInt 16])
      (PTuple [PFloat 0, PFloat 0]) (PTuple [PFloat 1, PFloat 1])
      (PList [PBool True, PBool False]) = Inr (0, h', ss)"
    by (simp add: construct_defs)
  then obtain h2 s2 where
    c2: "new_FeMesh_Cartesian (\<lambda>n. n) [] (PStr ''Q1/dQ0'') (PTuple [PInt 16, PInt 16])
      (PTuple [PFloat 0, PFloat 0]) (PTuple [PFloat 1, PFloat 1])
      (PList [PBool True, PBool False]) = Inr (0, h2, s2)"
    by blast
  have r2: "nodesGlobal h2 0 = Some 272"
    using global_vertex_count [OF c2] by (simp add: numeral_2_eq_2)
  from c1 r1 c2 r2 show ?thesis by auto
qed

section \<open>The secondary mesh\<close>



section \<open>The construction of a mesh\<close>

text \<open>
  Claim C5. The element type of a mesh is its name in upper case, which is what the mesh
  stores. When it is not one of \<open>Q2\<close>, \<open>Q1\<close>, \<open>DQ1\<close>, \<open>DPC1\<close>, \<open>DQ0\<close> the initialiser fails
  with the error for an unsupported element type. When it is one of them and no generator
  is given, the initialiser fails with the error for a missing generator if the mesh is not
  itself a \<open>MeshGenerator\<close>, as a plain \<open>FeMesh\<close> is not; if the mesh is a \<open>MeshGenerator\<close>
  it becomes its own generator, kept through a weak reference, and the initialisation goes
  on with the next class.
\<close>

theorem FeMesh_construction_checks:
  "(upper s \<notin> set supportedElementTypes \<longrightarrow>
      FeMesh_init h self (PStr s) gen super_init = Inl unsupported_elementType_error)
 \<and> (upper s \<in> set supportedElementTypes \<and> \<not> isinstance h (PRef self) MeshGenerator \<longrightarrow>
      FeMesh_init h self (PStr s) PNone super_init = Inl missing_generator_error)
 \<and> (upper s \<in> set supportedElementTypes \<longrightarrow>
      new_FeMesh h (PStr s) PNone = Inl missing_generator_error)
 \<and> (upper s \<in> set supportedElementTypes \<and> self < length h
      \<and> isinstance h (PRef self) MeshGenerator \<longrightarrow>
      (\<exists>h2. FeMesh_init h self (PStr s) PNone super_init = super_init h2
            \<and> elementType h2 self = Inr (upper s)
            \<and> a_generator (h2 ! self) = Some (Weakref self)
            \<and> generator_getter h2 self = Inr (PRef self)))"
  by (auto simp: FeMesh_init_def new_FeMesh_def alloc_def Let_def isinstance_update_klass
        generator_setter_def elementType_def generator_getter_def deref_def
        blank_def issubclass_def nth_append)

theorem FeMesh_construction_checks_witness:
  "upper ''Q3'' \<notin> set supportedElementTypes
 \<and> FeMesh_init [blank FeMesh] 0 (PStr ''Q3'') PNone Inr = Inl unsupported_elementType_error
 \<and> upper ''dq0'' \<in> set supportedElementTypes
 \<and> \<not> isinstance [blank FeMesh] (PRef 0) MeshGenerator
 \<and> FeMesh_init [blank FeMesh] 0 (PStr ''dq0'') PNone Inr = Inl missing_generator_error
 \<and> new_FeMesh [] (PStr ''dq0'') PNone = Inl missing_generator_error
 \<and> 0 < length [blank FeMesh_Cartesian]
 \<and> isinstance [blank FeMesh_Cartesian] (PRef 0) MeshGenerator
 \<and> (\<exists>h2. FeMesh_init [blank FeMesh_Cartesian] 0 (PStr ''dq0'') PNone Inr = Inr h2
        \<and> elementType h2 0 = Inr ''DQ0''
        \<and> generator_getter h2 0 = Inr (PRef 0))"
proof -
  have a: "upper ''Q3'' \<notin> set supportedElementTypes"
    by (simp add: supportedElementTypes_def upper_def upper_char_def)
  have b: "upper ''dq0'' \<in> set supportedElementTypes" and u: "upper ''dq0'' = ''DQ0''"
    by (simp_all add: supportedElementTypes_def upper_def upper_char_def)
  have c: "\<not> isinstance [blank FeMesh] (PRef 0) MeshGenerator"
    by (simp add: blank_def issubclass_def)
  have d: "0 < length [blank FeMesh_Cartesian]"
    "isinstance [blank FeMesh_Cartesian] (PRef 0) MeshGenerator"
    by (simp_all add: blank_def issubclass_def)
  note t1 = FeMesh_construction_checks [of "''Q3''" "[blank FeMesh]" 0 PNone Inr]
  note t2 = FeMesh_construction_checks [of "''dq0''" "[blank FeMesh]" 0 PNone Inr]
  note t3 = FeMesh_construction_checks [of "''dq0''" "[]" 0 PNone Inr]
  note t4 = FeMesh_construction_checks [of "''dq0''" "[blank FeMesh_Cartesian]" 0 PNone Inr]
  from a t1 have r1: "FeMesh_init [blank FeMesh] 0 (PStr ''Q3'') PNone Inr
      = Inl unsupported_elementType_error" by blast
  from b c t2 have r2: "FeMesh_init [blank FeMesh] 0 (PStr ''dq0'') PNone Inr
      = Inl missing_generator_error" by blast
  from b t3 have r3: "new_FeMesh [] (PStr ''dq0'') PNone = Inl missing_generator_error"
    by blast
  from b d t4 have r4: "\<exists>h2. FeMesh_init [blank FeMesh_Cartesian] 0 (PStr ''dq0'') PNone Inr = Inr h2
        \<and> elementType h2 0 = Inr ''DQ0''
        \<and> generator_getter h2 0 = Inr (PRef 0)"
    unfolding u by blast
  from a b c d r1 r2 r3 r4 show ?thesis by blast
qed

section \<open>Parsing an element-type string\<close>

lemma strtolist_step_tokens:
  "\<exists>c. (c = [] \<or> c = [upper m] \<or> c = [CHR ''D'' # upper m])
      \<and> snd (strtolist_step st m) = snd st @ c"
  by (cases st) (simp add: strtolist_step_def Let_def)

lemma foldl_strtolist_step_tokens:
  "\<exists>cs. list_all2 (\<lambda>c m. c = [] \<or> c = [upper m] \<or> c = [CHR ''D'' # upper m]) cs ts
       \<and> snd (foldl strtolist_step st ts) = snd st @ concat cs"
proof (induction ts arbitrary: st)
  case Nil
  show ?case by simp
next
  case (Cons m ts)
  from strtolist_step_tokens [of m st] obtain c where
      c: "c = [] \<or> c = [upper m] \<or> c = [CHR ''D'' # upper m]"
    and s: "snd (strtolist_step st m) = snd st @ c"
    by blast
  from Cons.IH [of "strtolist_step st m"] obtain cs where
      cs: "list_all2 (\<lambda>c m. c = [] \<or> c = [upper m] \<or> c = [CHR ''D'' # upper m]) cs ts"
    and f: "snd (foldl strtolist_step (strtolist_step st m) ts)
              = snd (strtolist_step st m) @ concat cs"
    by blast
  show ?case
    using c cs s f by (intro exI [of _ "c # cs"]) simp
qed

lemma upper_supported: "m \<in> set supportedElementTypes \<Longrightarrow> upper m = m"
  by (auto simp: supportedElementTypes_def upper_def upper_char_def)

lemma strtolist_order:
  "\<exists>cs. list_all2 (\<lambda>c m. c = [] \<or> c = [m] \<or> c = [CHR ''D'' # m]) cs supportedElementTypes
       \<and> strtolist s = concat cs"
proof -
  from foldl_strtolist_step_tokens [of supportedElementTypes "(upper s, [])"] obtain cs where
      cs: "list_all2 (\<lambda>c m. c = [] \<or> c = [upper m] \<or> c = [CHR ''D'' # upper m])
             cs supportedElementTypes"
    and f: "strtolist s = concat cs"
    by (auto simp: strtolist_def)
  from cs have "list_all2 (\<lambda>c m. c = [] \<or> c = [m] \<or> c = [CHR ''D'' # m]) cs supportedElementTypes"
    by (rule list.rel_mono_strong) (auto simp: upper_supported)
  with f show ?thesis by blast
qed

lemma upper_D: "upper (CHR ''D'' # x) = CHR ''D'' # upper x"
  by (simp add: upper_def upper_char_def)

lemma strtolist_upper:
  assumes "t \<in> set (strtolist s)"
  shows "upper t = t"
proof -
  from strtolist_order [of s] obtain cs where
      cs: "list_all2 (\<lambda>c m. c = [] \<or> c = [m] \<or> c = [CHR ''D'' # m]) cs supportedElementTypes"
    and f: "strtolist s = concat cs"
    by blast
  from assms f obtain c where c: "c \<in> set cs" and t: "t \<in> set c" by auto
  from c obtain i where i: "i < length cs" and ci: "cs ! i = c"
    by (auto simp: in_set_conv_nth)
  from cs i ci have "c = [] \<or> c = [supportedElementTypes ! i]
      \<or> c = [CHR ''D'' # supportedElementTypes ! i]"
    by (auto simp: list_all2_conv_all_nth)
  moreover have "supportedElementTypes ! i \<in> set supportedElementTypes"
    using cs i by (auto simp: list_all2_conv_all_nth)
  ultimately show ?thesis
    using t by (auto simp: upper_D upper_supported)
qed

lemma check_elTypes_None:
  "check_elTypes (map PStr ts) = None \<longleftrightarrow> (\<forall>t \<in> set ts. upper t \<in> set supportedElementTypes)"
  by (induction ts) auto

text \<open>
  Claim C6, as stated, fails. The claim is that a string with characters that form no
  supported token is rejected, and that the tokens are read from left to right. The string
  \<open>Q1xyz\<close> is accepted as the single type \<open>Q1\<close>, and \<open>dQ0/Q1\<close> is accepted as \<open>Q1\<close> followed
  by \<open>DQ0\<close>.
\<close>

theorem unknown_characters_accepted:
  "strtolist ''Q1xyz'' = [''Q1'']
   \<and> FeMesh_Cartesian_new (PStr ''Q1xyz'') = Inr (Some ''CartesianGenerator'')
   \<and> strtolist ''dQ0/Q1'' = [''Q1'', ''DQ0'']
   \<and> FeMesh_Cartesian_new (PStr ''dQ0/Q1'') = Inr (Some ''CartesianGenerator'')"
  by (simp add: FeMesh_Cartesian_new_def elementType_list_def meshGenerator_def strtolist_def
        strtolist_step_def supportedElementTypes_def upper_def upper_char_def)

text \<open>
  Claim C6, amended. A string that \<open>__new__\<close> accepts parses to one or two tokens of the
  fixed enumeration, the first \<open>Q2\<close> or \<open>Q1\<close> and the second, when there is one, \<open>Q1\<close>,
  \<open>DQ1\<close>, \<open>DPC1\<close> or \<open>DQ0\<close>. For every string the tokens follow the order of the list of
  supported types, each type giving nothing, itself, or itself after a \<open>D\<close>. A string with
  no token is rejected with an \<open>IndexError\<close>; one with more than two tokens, or with a token
  outside the enumeration, is rejected with a \<open>ValueError\<close>.
\<close>

theorem accepted_element_type_strings:
  "(FeMesh_Cartesian_new (PStr s) = Inr gen \<longrightarrow>
      (length (strtolist s) = 1 \<or> length (strtolist s) = 2)
    \<and> set (strtolist s) \<subseteq> set supportedElementTypes
    \<and> strtolist s ! 0 \<in> {''Q2'', ''Q1''}
    \<and> (length (strtolist s) = 2 \<longrightarrow> strtolist s ! 1 \<in> {''Q1'', ''DQ1'', ''DPC1'', ''DQ0''}))
 \<and> (\<exists>cs. list_all2 (\<lambda>c m. c = [] \<or> c = [m] \<or> c = [CHR ''D'' # m]) cs supportedElementTypes
        \<and> strtolist s = concat cs)
 \<and> (strtolist s = [] \<longrightarrow> (\<exists>msg. FeMesh_Cartesian_new (PStr s) = Inl (IndexError msg)))
 \<and> (2 < length (strtolist s) \<longrightarrow> (\<exists>msg. FeMesh_Cartesian_new (PStr s) = Inl (ValueError msg)))
 \<and> (\<not> set (strtolist s) \<subseteq> set supportedElementTypes \<longrightarrow>
       (\<exists>msg. FeMesh_Cartesian_new (PStr s) = Inl (ValueError msg)))"
proof -
  have up: "\<forall>t \<in> set (strtolist s). upper t = t"
    by (simp add: strtolist_upper)
  have ok: "(length (strtolist s) = 1 \<or> length (strtolist s) = 2)
    \<and> set (strtolist s) \<subseteq> set supportedElementTypes
    \<and> strtolist s ! 0 \<in> {''Q2'', ''Q1''}
    \<and> (length (strtolist s) = 2 \<longrightarrow> strtolist s ! 1 \<in> {''Q1'', ''DQ1'', ''DPC1'', ''DQ0''})"
    if a: "FeMesh_Cartesian_new (PStr s) = Inr gen"
  proof -
    note n = FeMesh_Cartesian_new_Inr [OF a, unfolded elementType_list_def, simplified]
    from n(4) have "0 < length (strtolist s)" by simp
    with n(1) have l: "length (strtolist s) = 1 \<or> length (strtolist s) = 2"
      by arith
    from n(2) up have sub: "set (strtolist s) \<subseteq> set supportedElementTypes"
      by (auto simp: check_elTypes_None)
    from n(4) have hd0: "strtolist s ! 0 = hd (strtolist s)"
      by (simp add: hd_conv_nth)
    from n(4) have "hd (strtolist s) \<in> set (strtolist s)" by simp
    with up have "upper (hd (strtolist s)) = hd (strtolist s)" by blast
    with n(5) n(4) hd0 have p: "strtolist s ! 0 \<in> {''Q2'', ''Q1''}"
      by (simp add: hd_map supportedElementTypes_def)
    have q: "strtolist s ! 1 \<in> {''Q1'', ''DQ1'', ''DPC1'', ''DQ0''}"
      if l2: "length (strtolist s) = 2"
    proof -
      from l2 have "strtolist s ! 1 \<in> set (strtolist s)" by simp
      with up have "upper (strtolist s ! 1) = strtolist s ! 1" by blast
      with n(3) l2 show ?thesis by (simp add: supportedElementTypes_def)
    qed
    from l sub p q show ?thesis by blast
  qed
  have empty: "\<exists>msg. FeMesh_Cartesian_new (PStr s) = Inl (IndexError msg)"
    if "strtolist s = []"
    using that by (simp add: FeMesh_Cartesian_new_def elementType_list_def)
  have many: "\<exists>msg. FeMesh_Cartesian_new (PStr s) = Inl (ValueError msg)"
    if "2 < length (strtolist s)"
    using that by (simp add: FeMesh_Cartesian_new_def elementType_list_def)
  have unk: "\<exists>msg. FeMesh_Cartesian_new (PStr s) = Inl (ValueError msg)"
    if "\<not> set (strtolist s) \<subseteq> set supportedElementTypes"
  proof -
    from that up have "check_elTypes (map PStr (strtolist s)) \<noteq> None"
      by (auto simp: check_elTypes_None)
    moreover have "\<exists>msg. check_elTypes (map PStr ts) = Some (ValueError msg)"
      if "check_elTypes (map PStr ts) \<noteq> None" for ts
      using that by (induction ts) (auto simp: unsupported_elementType_error_def)
    ultimately obtain msg where "check_elTypes (map PStr (strtolist s)) = Some (ValueError msg)"
      by blast
    then show ?thesis
      by (simp add: FeMesh_Cartesian_new_def elementType_list_def Let_def)
  qed
  from ok strtolist_order [of s] empty many unk show ?thesis by blast
qed

theorem accepted_element_type_strings_witness:
  "FeMesh_Cartesian_new (PStr ''Q1/dQ0'') = Inr (Some ''CartesianGenerator'')
 \<and> length (strtolist ''Q1/dQ0'') = 2
 \<and> set (strtolist ''Q1/dQ0'') \<subseteq> set supportedElementTypes
 \<and> strtolist ''Q1/dQ0'' ! 1 \<in> {''Q1'', ''DQ1'', ''DPC1'', ''DQ0''}
 \<and> strtolist ''xyz'' = []
 \<and> (\<exists>msg. FeMesh_Cartesian_new (PStr ''xyz'') = Inl (IndexError msg))
 \<and> 2 < length (strtolist ''Q2Q1dQ0'')
 \<and> (\<exists>msg. FeMesh_Cartesian_new (PStr ''Q2Q1dQ0'') = Inl (ValueError msg))
 \<and> \<not> set (strtolist ''dQ2'') \<subseteq> set supportedElementTypes
 \<and> (\<exists>msg. FeMesh_Cartesian_new (PStr ''dQ2'') = Inl (ValueError msg))"
proof -
  have s: "strtolist ''Q1/dQ0'' = [''Q1'', ''DQ0'']" "strtolist ''xyz'' = []"
    "strtolist ''Q2Q1dQ0'' = [''Q2'', ''Q1'', ''DQ0'']" "strtolist ''dQ2'' = [''DQ2'']"
    by (simp_all add: strtolist_def strtolist_step_def supportedElementTypes_def upper_def
          upper_char_def)
  have a: "FeMesh_Cartesian_new (PStr ''Q1/dQ0'') = Inr (Some ''CartesianGenerator'')"
    by (simp add: FeMesh_Cartesian_new_def elementType_list_def s meshGenerator_def
          supportedElementTypes_def upper_def upper_char_def)
  have b: "2 < length (strtolist ''Q2Q1dQ0'')" by (simp add: s)
  have c: "\<not> set (strtolist ''dQ2'') \<subseteq> set supportedElementTypes"
    by (simp add: s supportedElementTypes_def)
  note t1 = accepted_element_type_strings [of "''Q1/dQ0''" "Some ''CartesianGenerator''"]
  note t2 = accepted_element_type_strings [of "''xyz''" None]
  note t3 = accepted_element_type_strings [of "''Q2Q1dQ0''" None]
  note t4 = accepted_element_type_strings [of "''dQ2''" None]
  from a t1 have r1: "set (strtolist ''Q1/dQ0'') \<subseteq> set supportedElementTypes"
    "length (strtolist ''Q1/dQ0'') = 2 \<longrightarrow>
       strtolist ''Q1/dQ0'' ! 1 \<in> {''Q1'', ''DQ1'', ''DPC1'', ''DQ0''}"
    by blast+
  have l: "length (strtolist ''Q1/dQ0'') = 2" by (simp add: s)
  from s(2) t2 have r2: "\<exists>msg. FeMesh_Cartesian_new (PStr ''xyz'') = Inl (IndexError msg)"
    by blast
  from b t3 have r3: "\<exists>msg. FeMesh_Cartesian_new (PStr ''Q2Q1dQ0'') = Inl (ValueError msg)"
    by blast
  from c t4 have r4: "\<exists>msg. FeMesh_Cartesian_new (PStr ''dQ2'') = Inl (ValueError msg)"
    by blast
  from a l r1 s(2) r2 b r3 c r4 show ?thesis by blast
qed


end
